theory Spec2Isabelle
  imports Main "HOL-Library.Word" "HOL-Library.Sublist"
begin

section \<open>Options and JavaScript values\<close>

text \<open>
  The \<^verbatim>\<open>Options\<close> typedef of \<^verbatim>\<open>index.js\<close>: every property is optional.  A property
  that the object does not have is \<open>None\<close>, and reads as \<^verbatim>\<open>undefined\<close>; a property that it
  has carries a value of its declared type.  (A property that is present with the value
  \<^verbatim>\<open>undefined\<close> is not modelled.)  Numbers are the integers the typedef documents.  The field \<^verbatim>\<open>size\<close> is called \<open>size_opt\<close> here, since \<open>size\<close> is
  a constant of HOL.
\<close>

record Options =
  serial :: "string option"
  transportID :: "string option"
  hostname :: "string option"
  port :: "int option"
  waitTimeout :: "int option"
  bugreport :: "bool option"
  size_opt :: "string option"
  bitRate :: "int option"
  timeLimit :: "int option"
  pullDelay :: "int option"

text \<open>The object literal \<^verbatim>\<open>{}\<close>.\<close>

definition empty_options :: Options where
  "empty_options =
     \<lparr>serial = None, transportID = None, hostname = None, port = None,
      waitTimeout = None, bugreport = None, size_opt = None, bitRate = None,
      timeLimit = None, pullDelay = None\<rparr>"

text \<open>
  JavaScript truthiness, as the conditions \<^verbatim>\<open>if (options.x)\<close> test it: \<^verbatim>\<open>undefined\<close>,
  the empty string, the number 0 and \<^verbatim>\<open>false\<close> are falsy.
\<close>

definition truthy_string :: "string option \<Rightarrow> bool" where
  "truthy_string v = (case v of None \<Rightarrow> False | Some s \<Rightarrow> s \<noteq> [])"

definition truthy_number :: "int option \<Rightarrow> bool" where
  "truthy_number v = (case v of None \<Rightarrow> False | Some n \<Rightarrow> n \<noteq> 0)"

definition truthy_boolean :: "bool option \<Rightarrow> bool" where
  "truthy_boolean v = (case v of None \<Rightarrow> False | Some b \<Rightarrow> b)"

text \<open>
  \<^verbatim>\<open>String(n)\<close> and the conversion inside a template literal, for an integer: its
  decimal digits (JavaScript prints an integer below \<open>10\<^sup>2\<^sup>1\<close> in magnitude this way);
  \<^verbatim>\<open>undefined\<close> prints as the word.
\<close>

fun digits10 :: "nat \<Rightarrow> string" where
  "digits10 n =
     (if n < 10 then [''0123456789'' ! n]
      else digits10 (n div 10) @ [''0123456789'' ! (n mod 10)])"

declare digits10.simps [simp del]

definition String_number :: "int \<Rightarrow> string" where
  "String_number n = (if n < 0 then CHR ''-'' # digits10 (nat (- n)) else digits10 (nat n))"

definition template_number :: "int option \<Rightarrow> string" where
  "template_number v = (case v of None \<Rightarrow> ''undefined'' | Some n \<Rightarrow> String_number n)"

definition template_string :: "string option \<Rightarrow> string" where
  "template_string v = (case v of None \<Rightarrow> ''undefined'' | Some s \<Rightarrow> s)"

text \<open>
  \<^verbatim>\<open>Array.prototype.join('')\<close> on an array whose elements are strings or
  \<^verbatim>\<open>undefined\<close>: an undefined element contributes the empty string.
\<close>

definition join_empty :: "string option list \<Rightarrow> string" where
  "join_empty xs = concat (map (\<lambda>x. case x of None \<Rightarrow> [] | Some s \<Rightarrow> s) xs)"

text \<open>\<^verbatim>\<open>Buffer.toString('hex')\<close>: two lower-case hexadecimal digits for each byte.\<close>

definition hex_byte :: "8 word \<Rightarrow> string" where
  "hex_byte b = [''0123456789abcdef'' ! (unat b div 16), ''0123456789abcdef'' ! (unat b mod 16)]"

definition toString_hex :: "8 word list \<Rightarrow> string" where
  "toString_hex bs = concat (map hex_byte bs)"

section \<open>Argument builders\<close>

text \<open>
  \<^verbatim>\<open>buildADBArgs\<close> and \<^verbatim>\<open>buildScreenRecordArgs\<close>: an array that starts as a literal and
  grows by one \<^verbatim>\<open>push\<close> for each option that is truthy, in the order of the source.
\<close>

definition buildADBArgs :: "Options \<Rightarrow> string list" where
  "buildADBArgs options =
     (let args = [];
          args = (case serial options of
                    Some s \<Rightarrow> if s \<noteq> [] then args @ [''-s'', s] else args
                  | None \<Rightarrow> args);
          args = (case transportID options of
                    Some t \<Rightarrow> if t \<noteq> [] then args @ [''-t'', t] else args
                  | None \<Rightarrow> args)
      in args)"

definition buildScreenRecordArgs :: "string \<Rightarrow> Options \<Rightarrow> string list" where
  "buildScreenRecordArgs fileName options =
     (let args = [''shell'', ''screenrecord'', ''--verbose''];
          args = (case bugreport options of
                    Some b \<Rightarrow> if b then args @ [''--bugreport''] else args
                  | None \<Rightarrow> args);
          args = (case size_opt options of
                    Some s \<Rightarrow> if s \<noteq> [] then args @ [''--size'', s] else args
                  | None \<Rightarrow> args);
          args = (case bitRate options of
                    Some n \<Rightarrow> if n \<noteq> 0 then args @ [''--bit-rate'', String_number n] else args
                  | None \<Rightarrow> args);
          args = (case timeLimit options of
                    Some n \<Rightarrow> if n \<noteq> 0 then args @ [''--time-limit'', String_number n] else args
                  | None \<Rightarrow> args)
      in args @ [fileName])"

section \<open>The host environment\<close>

text \<open>
  The program reaches the outside through Node's \<^verbatim>\<open>child_process\<close>, \<^verbatim>\<open>crypto\<close>, the
  timer and the object store.  These are not code of the repository; the model fixes
  only what the program relies on.

  Objects live in a store and are passed by reference, so that the effect of
  \<^verbatim>\<open>Object.assign\<close>, which writes into its first argument, is visible.  \<open>next_ref\<close> is
  the first address never handed out; an object literal takes it.
\<close>

type_synonym ref = nat

record store =
  objs :: "ref \<Rightarrow> Options"
  next_ref :: ref

definition new_object :: "store \<Rightarrow> Options \<Rightarrow> ref \<times> store" where
  "new_object st obj =
     (next_ref st, st\<lparr>objs := (objs st)(next_ref st := obj), next_ref := Suc (next_ref st)\<rparr>)"

definition assign_prop :: "'a option \<Rightarrow> 'a option \<Rightarrow> 'a option" where
  "assign_prop tgt src = (case src of None \<Rightarrow> tgt | Some v \<Rightarrow> Some v)"

definition assign_props :: "Options \<Rightarrow> Options \<Rightarrow> Options" where
  "assign_props tgt src =
     \<lparr>serial = assign_prop (serial tgt) (serial src),
      transportID = assign_prop (transportID tgt) (transportID src),
      hostname = assign_prop (hostname tgt) (hostname src),
      port = assign_prop (port tgt) (port src),
      waitTimeout = assign_prop (waitTimeout tgt) (waitTimeout src),
      bugreport = assign_prop (bugreport tgt) (bugreport src),
      size_opt = assign_prop (size_opt tgt) (size_opt src),
      bitRate = assign_prop (bitRate tgt) (bitRate src),
      timeLimit = assign_prop (timeLimit tgt) (timeLimit src),
      pullDelay = assign_prop (pullDelay tgt) (pullDelay src)\<rparr>"

text \<open>
  \<^verbatim>\<open>Object.assign(target, source)\<close>: every property present in the source is written
  into the target object, in place; an \<^verbatim>\<open>undefined\<close> source is skipped.  The target
  reference is returned.
\<close>

definition Object_assign :: "store \<Rightarrow> ref \<Rightarrow> ref option \<Rightarrow> ref \<times> store" where
  "Object_assign st target source =
     (case source of
        None \<Rightarrow> (target, st)
      | Some r \<Rightarrow>
          (target, st\<lparr>objs := (objs st)(target := assign_props (objs st target) (objs st r))\<rparr>))"

text \<open>
  The error object of a failed child process, as far as the program and its caller
  read it: the command line, the \<^verbatim>\<open>killed\<close> flag, and the rest (message, exit code,
  signal, captured standard error) as one opaque text.
\<close>

record ExecException =
  cmd :: "string list"
  killed :: bool
  detail :: string

record Result =
  stdout :: string
  stderr :: string

text \<open>
  The synchronous part of the host: \<^verbatim>\<open>crypto.randomBytes\<close>, and \<^verbatim>\<open>execFileSync\<close>, which
  either returns the standard output of the command or throws.  Its third argument is
  the \<^verbatim>\<open>timeout\<close> option (\<open>None\<close> when the call passes none); a timeout is one of the
  ways it throws.
\<close>

record host =
  randomBytes :: "nat \<Rightarrow> 8 word list"
  execFileSync :: "string \<Rightarrow> string list \<Rightarrow> int option \<Rightarrow> ExecException + string"

text \<open>
  A child process started by \<^verbatim>\<open>execFile\<close>.  Node's \<^verbatim>\<open>ChildProcess.kill\<close> sets the
  \<^verbatim>\<open>killed\<close> property when the signal was delivered, returns without effect when the
  process is gone already, and throws when the platform refuses the signal.
\<close>

record ChildProcess =
  spawnargs :: "string list"
  proc_killed :: bool

datatype kill_outcome = Delivered | NotDelivered | KillThrows

datatype thrown = ErrnoException string

definition ChildProcess_kill :: "ChildProcess \<Rightarrow> string \<Rightarrow> kill_outcome \<Rightarrow> thrown + ChildProcess" where
  "ChildProcess_kill p signal k =
     (case k of
        Delivered \<Rightarrow> Inr (p\<lparr>proc_killed := True\<rparr>)
      | NotDelivered \<Rightarrow> Inr p
      | KillThrows \<Rightarrow> Inl (ErrnoException signal))"

text \<open>
  How \<^verbatim>\<open>execFile\<close> ends: the process exits with code 0 and no signal (no error); it
  exits with another code or by a signal (Node builds the error and copies the child's
  \<^verbatim>\<open>killed\<close> property into it); or the host itself reports an error (a failed spawn, an
  overflowing output buffer), an error object that has no \<^verbatim>\<open>killed\<close> property, which
  reads as falsy.
\<close>

datatype exit_status = ExitOk | ExitFailure string | HostError string

definition exithandler :: "ChildProcess \<Rightarrow> string list \<Rightarrow> exit_status \<Rightarrow> ExecException option" where
  "exithandler child command status =
     (case status of
        ExitOk \<Rightarrow> None
      | ExitFailure d \<Rightarrow> Some \<lparr>cmd = command, killed = proc_killed child, detail = d\<rparr>
      | HostError d \<Rightarrow> Some \<lparr>cmd = command, killed = False, detail = d\<rparr>)"

section \<open>Stripping the download percentage\<close>

text \<open>
  \<^verbatim>\<open>stdout.replace(/[^\n]+%.+?\n/g, '')\<close>.  The matcher follows the regular expression
  with its backtracking: \<^verbatim>\<open>[^\n]+\<close> is greedy, so it first tries to take one more
  character and only then a \<^verbatim>\<open>%\<close> at this place; \<^verbatim>\<open>.+?\n\<close> takes at least one character
  that is no line terminator and stops at the first newline.  Each function returns the
  number of characters the match consumes.  Of the line terminators that \<^verbatim>\<open>.\<close> refuses,
  line feed and carriage return are characters of the model; the other two, U+2028 and
  U+2029, lie outside its 8-bit characters.
\<close>

definition dot :: "char \<Rightarrow> bool" where
  "dot c = (c \<noteq> CHR 0x0A \<and> c \<noteq> CHR 0x0D)"

fun dots_newline :: "string \<Rightarrow> nat option" where
  "dots_newline [] = None"
| "dots_newline (c # cs) =
     (if c = CHR 0x0A then Some 1
      else if dot c then map_option Suc (dots_newline cs)
      else None)"

definition dot_plus_newline :: "string \<Rightarrow> nat option" where
  "dot_plus_newline s =
     (case s of
        [] \<Rightarrow> None
      | c # cs \<Rightarrow> if dot c then map_option Suc (dots_newline cs) else None)"

fun not_newline_star_percent :: "string \<Rightarrow> nat option" where
  "not_newline_star_percent [] = None"
| "not_newline_star_percent (c # cs) =
     (if c = CHR 0x0A then None
      else (case not_newline_star_percent cs of
              Some n \<Rightarrow> Some (Suc n)
            | None \<Rightarrow>
                if c = CHR ''%'' then map_option Suc (dot_plus_newline cs) else None))"

definition match_progress :: "string \<Rightarrow> nat option" where
  "match_progress s =
     (case s of
        [] \<Rightarrow> None
      | c # cs \<Rightarrow>
          if c = CHR 0x0A then None else map_option Suc (not_newline_star_percent cs))"

text \<open>
  The global replacement by the empty string: scan from the left; where the pattern
  matches, drop the match and go on behind it; elsewhere keep the character.  A match
  has at least one character, so \<open>n - 1\<close> characters of the tail go with the head.
\<close>

fun replace_progress :: "string \<Rightarrow> string" where
  "replace_progress [] = []"
| "replace_progress (c # cs) =
     (case match_progress (c # cs) of
        Some n \<Rightarrow> replace_progress (drop (n - 1) cs)
      | None \<Rightarrow> c # replace_progress cs)"

text \<open>
  The same pattern read line by line, for comparison.  \<open>lines_nl\<close> cuts a text behind
  each newline; the last piece has no newline when the text does not end with one.  A
  progress line is a line that ends with a newline and has, before it, at least one
  character, then a percent sign, then at least one character, none of them a line
  terminator behind the percent sign.
\<close>

fun lines_nl :: "string \<Rightarrow> string list" where
  "lines_nl [] = []"
| "lines_nl (c # cs) =
     (if c = CHR 0x0A then [c] # lines_nl cs
      else (case lines_nl cs of [] \<Rightarrow> [[c]] | l # ls \<Rightarrow> (c # l) # ls))"

fun percent_then_dots :: "string \<Rightarrow> bool" where
  "percent_then_dots [] = False"
| "percent_then_dots (c # cs) =
     ((c = CHR ''%'' \<and> cs \<noteq> [] \<and> list_all dot cs) \<or> percent_then_dots cs)"

definition progress_line :: "string \<Rightarrow> bool" where
  "progress_line l =
     (case l of
        [] \<Rightarrow> False
      | c # cs \<Rightarrow>
          c \<noteq> CHR 0x0A \<and> cs \<noteq> [] \<and> last cs = CHR 0x0A \<and>
          CHR 0x0A \<notin> set (butlast cs) \<and> percent_then_dots (butlast cs))"

section \<open>The recording handle\<close>

text \<open>
  The variables that the closures of \<^verbatim>\<open>recordScreen\<close> share, the state of the returned
  promise, the one asynchronous completion the chain is waiting for, and the log of the
  calls of the external tool, oldest first.
\<close>

datatype promise_state = Pending | Fulfilled Result | Rejected ExecException

datatype waiting =
    Idle
  | Timer "int option" Result
  | PullProcess Result
  | DeleteProcess Result

datatype invocation =
    ExecFileSync string "string list" "int option"
  | ExecFile string "string list"

record state =
  fileName :: string
  opts :: Options
  deviceFileName :: string
  adbArgs :: "string list"
  args :: "string list"
  connectOutput :: "string option"
  waitForDeviceOutput :: "string option"
  recordingProcess :: "ChildProcess option"
  waiting :: waiting
  promise :: promise_state
  calls :: "invocation list"

text \<open>
  \<^verbatim>\<open>recordingExecutor\<close>: \<^verbatim>\<open>execFile\<close> starts the process and returns it at once; the
  callback runs later, when the host reports the end of the process.
\<close>

definition recordingExecutor :: "state \<Rightarrow> state" where
  "recordingExecutor s =
     s\<lparr>recordingProcess := Some \<lparr>spawnargs = args s, proc_killed = False\<rparr>,
       calls := calls s @ [ExecFile ''adb'' (args s)]\<rparr>"

definition recordingCallback :: "ExecException option \<Rightarrow> string \<Rightarrow> string \<Rightarrow> state \<Rightarrow> state" where
  "recordingCallback error out err s0 =
     (let s = s0\<lparr>recordingProcess := None\<rparr>;
          result = \<lparr>stdout = join_empty [connectOutput s, waitForDeviceOutput s, Some out],
                    stderr = err\<rparr>;
          delayed = s\<lparr>waiting := Timer (pullDelay (opts s)) result\<rparr>
      in case error of
           None \<Rightarrow> delayed
         | Some e \<Rightarrow> if \<not> killed e then s\<lparr>promise := Rejected e\<rparr> else delayed)"

definition stop :: "kill_outcome \<Rightarrow> state \<Rightarrow> thrown + state" where
  "stop k s =
     (case recordingProcess s of
        None \<Rightarrow> Inr s
      | Some p \<Rightarrow>
          (case ChildProcess_kill p ''SIGINT'' k of
             Inl e \<Rightarrow> Inl e
           | Inr p' \<Rightarrow> Inr (s\<lparr>recordingProcess := Some p'\<rparr>)))"

text \<open>
  \<^verbatim>\<open>pullFile\<close> and \<^verbatim>\<open>deleteFile\<close>: each starts the tool and, in its \<^verbatim>\<open>then\<close> callback,
  combines the output with the result so far.
\<close>

definition pullFile_args :: "state \<Rightarrow> string list" where
  "pullFile_args s = adbArgs s @ [''pull'', ''-a'', deviceFileName s, fileName s]"

definition pullFile :: "Result \<Rightarrow> state \<Rightarrow> state" where
  "pullFile result s =
     s\<lparr>calls := calls s @ [ExecFile ''adb'' (pullFile_args s)], waiting := PullProcess result\<rparr>"

definition pullFile_then :: "Result \<Rightarrow> Result \<Rightarrow> Result" where
  "pullFile_then result nextResult =
     \<lparr>stdout = stdout result @ replace_progress (stdout nextResult),
      stderr = stderr result @ stderr nextResult\<rparr>"

definition delete_command :: "string \<Rightarrow> string" where
  "delete_command file =
     (let action = ''android.intent.action.MEDIA_SCANNER_SCAN_FILE''
      in ''rm '' @ file @ '' && am broadcast -a '' @ action @ '' -d file://'' @ file)"

definition deleteFile_args :: "state \<Rightarrow> string list" where
  "deleteFile_args s =
     (let file = deviceFileName s;
          cmd = delete_command file
      in adbArgs s @ [''shell'', cmd])"

definition deleteFile :: "Result \<Rightarrow> state \<Rightarrow> state" where
  "deleteFile result s =
     s\<lparr>calls := calls s @ [ExecFile ''adb'' (deleteFile_args s)], waiting := DeleteProcess result\<rparr>"

definition deleteFile_then :: "Result \<Rightarrow> Result \<Rightarrow> Result" where
  "deleteFile_then result nextResult =
     \<lparr>stdout = stdout result @ stdout nextResult,
      stderr = stderr result @ stderr nextResult\<rparr>"

text \<open>
  The two guarded blocks before the promise is built, each a synchronous call inside
  \<^verbatim>\<open>try\<close>.  \<open>Inl\<close> is the early \<^verbatim>\<open>return { promise: Promise.reject(error), stop }\<close> of
  the \<^verbatim>\<open>catch\<close>.  The connect call passes no timeout, the wait call passes
  \<^verbatim>\<open>opts.waitTimeout\<close>.
\<close>

definition connect_args :: "Options \<Rightarrow> string list" where
  "connect_args options =
     [''connect'', template_string (hostname options) @ '':'' @ template_number (port options)]"

definition connect_block :: "host \<Rightarrow> state \<Rightarrow> state + state" where
  "connect_block h s =
     (if truthy_string (hostname (opts s)) then
        (let a = connect_args (opts s);
             s = s\<lparr>calls := calls s @ [ExecFileSync ''adb'' a None]\<rparr>
         in case execFileSync h ''adb'' a None of
              Inl error \<Rightarrow> Inl (s\<lparr>promise := Rejected error\<rparr>)
            | Inr buffer \<Rightarrow> Inr (s\<lparr>connectOutput := Some buffer\<rparr>))
      else Inr s)"

definition waitForDevice_block :: "host \<Rightarrow> state \<Rightarrow> state + state" where
  "waitForDevice_block h s =
     (if truthy_number (waitTimeout (opts s)) then
        (let a = [''wait-for-device''];
             t = waitTimeout (opts s);
             s = s\<lparr>calls := calls s @ [ExecFileSync ''adb'' a t]\<rparr>
         in case execFileSync h ''adb'' a t of
              Inl error \<Rightarrow> Inl (s\<lparr>promise := Rejected error\<rparr>)
            | Inr buffer \<Rightarrow> Inr (s\<lparr>waitForDeviceOutput := Some buffer\<rparr>))
      else Inr s)"

text \<open>The object literal that \<^verbatim>\<open>Object.assign\<close> receives as its target.\<close>

definition defaults :: Options where
  "defaults = empty_options\<lparr>port := Some 5555, waitTimeout := Some 5000, pullDelay := Some 200\<rparr>"

text \<open>
  The closure variables as they are when the declarations of \<^verbatim>\<open>recordScreen\<close> have run
  (\<^verbatim>\<open>opts\<close> is merged already): the names and argument lists are fixed, the outputs and
  the process are still \<^verbatim>\<open>undefined\<close>, no call has been made.
\<close>

definition initial_state :: "host \<Rightarrow> string \<Rightarrow> Options \<Rightarrow> state" where
  "initial_state h file merged =
     (let fileID = toString_hex (randomBytes h 16);
          deviceFileName = ''/sdcard/Movies/'' @ fileID @ ''.mp4'';
          adbArgs = buildADBArgs merged;
          args = adbArgs @ buildScreenRecordArgs deviceFileName merged
      in \<lparr>fileName = file, opts = merged, deviceFileName = deviceFileName,
          adbArgs = adbArgs, args = args, connectOutput = None,
          waitForDeviceOutput = None, recordingProcess = None, waiting = Idle,
          promise = Pending, calls = []\<rparr>)"

text \<open>
  \<^verbatim>\<open>recordScreen\<close>: merge the options into a new object, fix the names, run the two
  guarded blocks, and start the chain, whose first link runs at once.  The result is the
  store after the call and the handle.
\<close>

definition recordScreen :: "host \<Rightarrow> store \<Rightarrow> string \<Rightarrow> ref option \<Rightarrow> store \<times> state" where
  "recordScreen h st0 file options =
     (let (target, st1) = new_object st0 defaults;
          (opts_ref, st) = Object_assign st1 target options;
          s = initial_state h file (objs st opts_ref)
      in (st,
          case connect_block h s of
            Inl handle \<Rightarrow> handle
          | Inr s \<Rightarrow>
              (case waitForDevice_block h s of
                 Inl handle \<Rightarrow> handle
               | Inr s \<Rightarrow> recordingExecutor s)))"

text \<open>The handle that a call returns.\<close>

abbreviation returned :: "host \<Rightarrow> store \<Rightarrow> string \<Rightarrow> ref option \<Rightarrow> state" where
  "returned h st file options \<equiv> snd (recordScreen h st file options)"

text \<open>
  What happens after \<^verbatim>\<open>recordScreen\<close> has returned: the caller calls \<^verbatim>\<open>stop\<close> (an
  exception of \<^verbatim>\<open>kill\<close> goes to that caller and leaves the handle as it is), or the host
  reports a completion: the record process has ended, the timer has fired, the pull or
  the delete has ended.  The reaction of the promise chain to a completion (the next
  \<^verbatim>\<open>then\<close> callback, or the rejection passing down the chain) is part of the same step.
  A completion that nothing is waiting for cannot occur and leaves the state as it is.
\<close>

datatype event =
    Stop kill_outcome
  | RecordExit exit_status string string
  | Timeout
  | PullExit "ExecException + Result"
  | DeleteExit "ExecException + Result"

fun step :: "state \<Rightarrow> event \<Rightarrow> state" where
  "step s (Stop k) = (case stop k s of Inl e \<Rightarrow> s | Inr s' \<Rightarrow> s')"
| "step s (RecordExit status out err) =
     (case recordingProcess s of
        None \<Rightarrow> s
      | Some child \<Rightarrow> recordingCallback (exithandler child (''adb'' # args s) status) out err s)"
| "step s Timeout =
     (case waiting s of
        Timer delay result \<Rightarrow> pullFile result s
      | _ \<Rightarrow> s)"
| "step s (PullExit r) =
     (case waiting s of
        PullProcess result \<Rightarrow>
          (case r of
             Inl error \<Rightarrow> s\<lparr>promise := Rejected error, waiting := Idle\<rparr>
           | Inr nextResult \<Rightarrow> deleteFile (pullFile_then result nextResult) s)
      | _ \<Rightarrow> s)"
| "step s (DeleteExit r) =
     (case waiting s of
        DeleteProcess result \<Rightarrow>
          (case r of
             Inl error \<Rightarrow> s\<lparr>promise := Rejected error, waiting := Idle\<rparr>
           | Inr nextResult \<Rightarrow>
               s\<lparr>promise := Fulfilled (deleteFile_then result nextResult), waiting := Idle\<rparr>)
      | _ \<Rightarrow> s)"

definition run :: "state \<Rightarrow> event list \<Rightarrow> state" where
  "run s es = foldl step s es"

section \<open>The caller's side\<close>

text \<open>
  The options argument is \<^verbatim>\<open>undefined\<close> or a reference to an object that exists, that
  is, one allocated before the call.  \<open>caller_options\<close> reads what the caller passed; no
  argument reads as the empty object.
\<close>

definition allocated :: "store \<Rightarrow> ref option \<Rightarrow> bool" where
  "allocated st options = (case options of None \<Rightarrow> True | Some r \<Rightarrow> r < next_ref st)"

definition caller_options :: "store \<Rightarrow> ref option \<Rightarrow> Options" where
  "caller_options st options = (case options of None \<Rightarrow> empty_options | Some r \<Rightarrow> objs st r)"

text \<open>
  The part of a handle that no event changes, and the shape of the states that a handle
  can reach from the state \<open>s0\<close> in which \<^verbatim>\<open>recordScreen\<close> returned it: which calls of
  the tool have been made at each stage of the chain.
\<close>

definition static :: "state \<Rightarrow> state" where
  "static s = s\<lparr>recordingProcess := None, waiting := Idle, promise := Pending, calls := []\<rparr>"

definition quiescent :: "state \<Rightarrow> bool" where
  "quiescent s = (recordingProcess s = None \<and> waiting s = Idle)"

definition pull_call :: "state \<Rightarrow> invocation" where
  "pull_call s = ExecFile ''adb'' (pullFile_args s)"

definition delete_call :: "state \<Rightarrow> invocation" where
  "delete_call s = ExecFile ''adb'' (deleteFile_args s)"

definition stage_calls :: "state \<Rightarrow> state \<Rightarrow> bool" where
  "stage_calls s0 s =
     (case recordingProcess s of
        Some p \<Rightarrow> waiting s = Idle \<and> promise s = Pending \<and> calls s = calls s0
      | None \<Rightarrow>
          (case waiting s of
             Idle \<Rightarrow>
               (case promise s of
                  Pending \<Rightarrow> False
                | Rejected e \<Rightarrow>
                    calls s = calls s0 \<or> calls s = calls s0 @ [pull_call s0] \<or>
                    calls s = calls s0 @ [pull_call s0, delete_call s0]
                | Fulfilled r \<Rightarrow> calls s = calls s0 @ [pull_call s0, delete_call s0])
           | Timer d r \<Rightarrow>
               promise s = Pending \<and> calls s = calls s0 \<and> d = pullDelay (opts s0)
           | PullProcess r \<Rightarrow> promise s = Pending \<and> calls s = calls s0 @ [pull_call s0]
           | DeleteProcess r \<Rightarrow>
               promise s = Pending \<and> calls s = calls s0 @ [pull_call s0, delete_call s0]))"

definition stage_ok :: "state \<Rightarrow> state \<Rightarrow> bool" where
  "stage_ok s0 s = (static s = static s0 \<and> stage_calls s0 s)"

text \<open>
  The part of a command line that one option contributes: the flag and its value when
  the option is truthy, nothing otherwise.
\<close>

definition string_flag :: "string \<Rightarrow> string option \<Rightarrow> string list" where
  "string_flag name v = (if truthy_string v then [name, template_string v] else [])"

definition number_flag :: "string \<Rightarrow> int option \<Rightarrow> string list" where
  "number_flag name v = (if truthy_number v then [name, template_number v] else [])"

definition boolean_flag :: "string \<Rightarrow> bool option \<Rightarrow> string list" where
  "boolean_flag name v = (if truthy_boolean v then [name] else [])"

text \<open>The device selectors: the serial first, then the transport id.\<close>

definition selectors :: "Options \<Rightarrow> string list" where
  "selectors options =
     string_flag ''-s'' (serial options) @ string_flag ''-t'' (transportID options)"

text \<open>
  Two names for the proofs: the options object after the merge, read from the store as
  \<^verbatim>\<open>recordScreen\<close> leaves it, and the handle that the guarded blocks and the start of
  the chain make of the initial state.
\<close>

definition merged_options :: "store \<Rightarrow> ref option \<Rightarrow> Options" where
  "merged_options st options =
     objs (snd (Object_assign (snd (new_object st defaults)) (next_ref st) options)) (next_ref st)"

definition handle_of :: "host \<Rightarrow> state \<Rightarrow> state" where
  "handle_of h s =
     (case connect_block h s of
        Inl handle \<Rightarrow> handle
      | Inr s \<Rightarrow>
          (case waitForDevice_block h s of
             Inl handle \<Rightarrow> handle
           | Inr s \<Rightarrow> recordingExecutor s))"

text \<open>
  The two synchronous calls as \<^verbatim>\<open>recordScreen\<close> makes them, and what the host answers.
\<close>

definition connect_call :: "Options \<Rightarrow> invocation" where
  "connect_call options = ExecFileSync ''adb'' (connect_args options) None"

definition wait_call :: "Options \<Rightarrow> invocation" where
  "wait_call options = ExecFileSync ''adb'' [''wait-for-device''] (waitTimeout options)"

definition connect_result :: "host \<Rightarrow> Options \<Rightarrow> ExecException + string" where
  "connect_result h options = execFileSync h ''adb'' (connect_args options) None"

definition wait_result :: "host \<Rightarrow> Options \<Rightarrow> ExecException + string" where
  "wait_result h options = execFileSync h ''adb'' [''wait-for-device''] (waitTimeout options)"

text \<open>A host for the examples: sixteen fixed bytes, and every synchronous call succeeds.\<close>

definition example_host :: host where
  "example_host =
     \<lparr>randomBytes = (\<lambda>n. replicate n 0xAB),
      execFileSync = (\<lambda>file a t. Inr (''<'' @ concat a @ ''>''))\<rparr>"

text \<open>A host on which every synchronous call of the tool fails.\<close>

definition example_error :: "string list \<Rightarrow> ExecException" where
  "example_error a = \<lparr>cmd = ''adb'' # a, killed = False, detail = ''failed''\<rparr>"

definition offline_host :: host where
  "offline_host =
     \<lparr>randomBytes = (\<lambda>n. replicate n 0xAB),
      execFileSync = (\<lambda>file a t. Inl (example_error a))\<rparr>"

text \<open>
  A store with three objects: \<^verbatim>\<open>{ serial: 'banana', hostname: 'pixel' }\<close> at address 0,
  \<^verbatim>\<open>{}\<close> at address 1, and an object that sets the recording options and switches the
  wait off at address 2.
\<close>

definition example_store :: store where
  "example_store =
     \<lparr>objs = (\<lambda>r. empty_options)
               (0 := empty_options\<lparr>serial := Some ''banana'', hostname := Some ''pixel''\<rparr>,
                2 := empty_options\<lparr>transportID := Some ''7'', waitTimeout := Some 0,
                       bugreport := Some True, size_opt := Some ''1x1'', bitRate := Some 400,
                       timeLimit := Some 9\<rparr>),
      next_ref = 3\<rparr>"

text \<open>
  The handle of a call that passes the object at address 0, on the host that succeeds,
  and the argument list of its record command.
\<close>

definition example_args :: "string list" where
  "example_args =
     [''-s'', ''banana'', ''shell'', ''screenrecord'', ''--verbose'',
      ''/sdcard/Movies/abababababababababababababababab.mp4'']"

definition example_handle :: state where
  "example_handle = returned example_host example_store ''/tmp/test.mp4'' (Some 0)"

section \<open>Properties\<close>

subsection \<open>Runs and what they leave unchanged\<close>

declare step.simps [simp del]

lemma run_Nil: "run s [] = s" and run_Cons: "run s (e # es) = run (step s e) es"
  and run_append: "run s (es @ es') = run (run s es) es'"
  by (simp_all add: run_def)

lemma static_fields:
  assumes "static s = static s0"
  shows "fileName s = fileName s0" "opts s = opts s0" "deviceFileName s = deviceFileName s0"
    "adbArgs s = adbArgs s0" "args s = args s0" "connectOutput s = connectOutput s0"
    "waitForDeviceOutput s = waitForDeviceOutput s0"
proof -
  have "fileName (static s) = fileName (static s0)" using assms by simp
  then show "fileName s = fileName s0" by (simp add: static_def)
  have "opts (static s) = opts (static s0)" using assms by simp
  then show "opts s = opts s0" by (simp add: static_def)
  have "deviceFileName (static s) = deviceFileName (static s0)" using assms by simp
  then show "deviceFileName s = deviceFileName s0" by (simp add: static_def)
  have "adbArgs (static s) = adbArgs (static s0)" using assms by simp
  then show "adbArgs s = adbArgs s0" by (simp add: static_def)
  have "args (static s) = args (static s0)" using assms by simp
  then show "args s = args s0" by (simp add: static_def)
  have "connectOutput (static s) = connectOutput (static s0)" using assms by simp
  then show "connectOutput s = connectOutput s0" by (simp add: static_def)
  have "waitForDeviceOutput (static s) = waitForDeviceOutput (static s0)" using assms by simp
  then show "waitForDeviceOutput s = waitForDeviceOutput s0" by (simp add: static_def)
qed

lemma static_calls:
  assumes "static s = static s0"
  shows "pull_call s = pull_call s0" "delete_call s = delete_call s0"
  using static_fields[OF assms]
  by (simp_all add: pull_call_def delete_call_def pullFile_args_def deleteFile_args_def)

lemma static_step: "static (step s e) = static s"
proof (cases e)
  case (Stop k)
  then show ?thesis
    by (simp add: step.simps stop_def ChildProcess_kill_def static_def
        split: option.splits kill_outcome.splits)
next
  case (RecordExit status out err)
  then show ?thesis
    by (simp add: step.simps recordingCallback_def Let_def static_def split: option.splits)
next
  case Timeout
  then show ?thesis by (simp add: step.simps pullFile_def static_def split: waiting.splits)
next
  case (PullExit r)
  then show ?thesis
    by (simp add: step.simps deleteFile_def static_def split: waiting.splits sum.splits)
next
  case (DeleteExit r)
  then show ?thesis by (simp add: step.simps static_def split: waiting.splits sum.splits)
qed

lemma static_run: "static (run s es) = static s"
  by (induction es arbitrary: s) (simp_all add: run_Nil run_Cons static_step)

lemma quiescent_step: "quiescent s \<Longrightarrow> step s e = s"
  by (cases e) (simp_all add: step.simps quiescent_def stop_def)

lemma quiescent_run: "quiescent s \<Longrightarrow> run s es = s"
  by (induction es) (simp_all add: run_Nil run_Cons quiescent_step)

lemma calls_pullFile: "calls (pullFile r s) = calls s @ [pull_call s]"
  and calls_deleteFile: "calls (deleteFile r s) = calls s @ [delete_call s]"
  by (simp_all add: pullFile_def deleteFile_def pull_call_def delete_call_def)

lemma stage_calls_step:
  assumes st: "static s = static s0" and sc: "stage_calls s0 s"
  shows "stage_calls s0 (step s e)"
proof (cases e)
  case (Stop k)
  show ?thesis
  proof (cases "recordingProcess s")
    case None
    then show ?thesis using sc Stop by (simp add: step.simps stop_def)
  next
    case (Some p)
    then show ?thesis using sc Stop
      by (cases k) (simp_all add: step.simps stop_def ChildProcess_kill_def stage_calls_def)
  qed
next
  case (RecordExit status out err)
  show ?thesis
  proof (cases "recordingProcess s")
    case None
    then show ?thesis using sc RecordExit by (simp add: step.simps)
  next
    case (Some p)
    then show ?thesis using sc RecordExit static_fields(2)[OF st]
      by (simp add: step.simps recordingCallback_def Let_def stage_calls_def split: option.splits)
  qed
next
  case Timeout
  show ?thesis
  proof (cases "waiting s")
    case (Timer d r)
    then show ?thesis using sc Timeout static_calls[OF st]
      by (simp add: step.simps stage_calls_def pullFile_def pull_call_def split: option.splits)
  qed (use sc Timeout in \<open>simp_all add: step.simps\<close>)
next
  case (PullExit x)
  show ?thesis
  proof (cases "waiting s")
    case (PullProcess r)
    then show ?thesis using sc PullExit static_calls[OF st]
      by (cases x) (simp_all add: step.simps stage_calls_def deleteFile_def delete_call_def split: option.splits)
  qed (use sc PullExit in \<open>simp_all add: step.simps\<close>)
next
  case (DeleteExit x)
  show ?thesis
  proof (cases "waiting s")
    case (DeleteProcess r)
    then show ?thesis using sc DeleteExit
      by (cases x) (simp_all add: step.simps stage_calls_def split: option.splits)
  qed (use sc DeleteExit in \<open>simp_all add: step.simps\<close>)
qed

lemma stage_ok_step: "stage_ok s0 s \<Longrightarrow> stage_ok s0 (step s e)"
  by (simp add: stage_ok_def static_step stage_calls_step)

lemma stage_ok_run: "stage_ok s0 s \<Longrightarrow> stage_ok s0 (run s es)"
  by (induction es arbitrary: s) (simp_all add: run_Nil run_Cons stage_ok_step)

lemma recordScreen_handle:
  "returned h st file options = handle_of h (initial_state h file (merged_options st options))"
  by (simp add: recordScreen_def handle_of_def merged_options_def new_object_def Object_assign_def Let_def split: option.splits)

lemma merged_allocated:
  "allocated st options \<Longrightarrow> merged_options st options = assign_props defaults (caller_options st options)"
  by (cases options) (simp_all add: merged_options_def new_object_def Object_assign_def allocated_def caller_options_def
     assign_props_def assign_prop_def defaults_def empty_options_def)

lemma connect_block_skip:
  "\<not> truthy_string (hostname (opts s)) \<Longrightarrow> connect_block h s = Inr s"
  and connect_block_fail:
  "truthy_string (hostname (opts s)) \<Longrightarrow> connect_result h (opts s) = Inl e \<Longrightarrow>
     connect_block h s =
       Inl (s\<lparr>calls := calls s @ [connect_call (opts s)],
              promise := Rejected e\<rparr>)"
  and connect_block_ok:
  "truthy_string (hostname (opts s)) \<Longrightarrow> connect_result h (opts s) = Inr b \<Longrightarrow>
     connect_block h s =
       Inr (s\<lparr>calls := calls s @ [connect_call (opts s)],
              connectOutput := Some b\<rparr>)"
  by (simp_all add: connect_block_def connect_call_def connect_result_def Let_def)

lemma waitForDevice_block_skip:
  "\<not> truthy_number (waitTimeout (opts s)) \<Longrightarrow> waitForDevice_block h s = Inr s"
  and waitForDevice_block_fail:
  "truthy_number (waitTimeout (opts s)) \<Longrightarrow>
   wait_result h (opts s) = Inl e \<Longrightarrow>
     waitForDevice_block h s =
       Inl (s\<lparr>calls := calls s @ [wait_call (opts s)],
              promise := Rejected e\<rparr>)"
  and waitForDevice_block_ok:
  "truthy_number (waitTimeout (opts s)) \<Longrightarrow>
   wait_result h (opts s) = Inr b \<Longrightarrow>
     waitForDevice_block h s =
       Inr (s\<lparr>calls := calls s @ [wait_call (opts s)],
              waitForDeviceOutput := Some b\<rparr>)"
  by (simp_all add: waitForDevice_block_def wait_call_def wait_result_def Let_def)

lemma connect_block_frame:
  assumes "connect_block h s = Inl s' \<or> connect_block h s = Inr s'"
  shows "fileName s' = fileName s" "opts s' = opts s" "deviceFileName s' = deviceFileName s"
    "adbArgs s' = adbArgs s" "args s' = args s" "recordingProcess s' = recordingProcess s"
    "waiting s' = waiting s" "waitForDeviceOutput s' = waitForDeviceOutput s"
proof -
  consider (skip) "s' = s"
    | (fail) e where "s' = s\<lparr>calls := calls s @ [connect_call (opts s)],
              promise := Rejected e\<rparr>"
    | (ok) b where "s' = s\<lparr>calls := calls s @ [connect_call (opts s)],
              connectOutput := Some b\<rparr>"
  proof (cases "truthy_string (hostname (opts s))")
    case False
    then show ?thesis using assms that(1) by (simp add: connect_block_skip)
  next
    case True
    show ?thesis
    proof (cases "connect_result h (opts s)")
      case (Inl e)
      then show ?thesis using True assms that(2)[of e] by (simp add: connect_block_fail)
    next
      case (Inr b)
      then show ?thesis using True assms that(3)[of b] by (simp add: connect_block_ok)
    qed
  qed
  then have "fileName s' = fileName s \<and> opts s' = opts s \<and> deviceFileName s' = deviceFileName s \<and>
    adbArgs s' = adbArgs s \<and> args s' = args s \<and> recordingProcess s' = recordingProcess s \<and>
    waiting s' = waiting s \<and> waitForDeviceOutput s' = waitForDeviceOutput s"
    by cases simp_all
  then show "fileName s' = fileName s" "opts s' = opts s" "deviceFileName s' = deviceFileName s"
    "adbArgs s' = adbArgs s" "args s' = args s" "recordingProcess s' = recordingProcess s"
    "waiting s' = waiting s" "waitForDeviceOutput s' = waitForDeviceOutput s"
    by simp_all
qed

lemma waitForDevice_block_frame:
  assumes "waitForDevice_block h s = Inl s' \<or> waitForDevice_block h s = Inr s'"
  shows "fileName s' = fileName s" "opts s' = opts s" "deviceFileName s' = deviceFileName s"
    "adbArgs s' = adbArgs s" "args s' = args s" "recordingProcess s' = recordingProcess s"
    "waiting s' = waiting s" "connectOutput s' = connectOutput s"
proof -
  consider (skip) "s' = s"
    | (fail) e where "s' = s\<lparr>calls := calls s @ [wait_call (opts s)],
              promise := Rejected e\<rparr>"
    | (ok) b where "s' = s\<lparr>calls := calls s @ [wait_call (opts s)],
              waitForDeviceOutput := Some b\<rparr>"
  proof (cases "truthy_number (waitTimeout (opts s))")
    case False
    then show ?thesis using assms that(1) by (simp add: waitForDevice_block_skip)
  next
    case True
    show ?thesis
    proof (cases "wait_result h (opts s)")
      case (Inl e)
      then show ?thesis using True assms that(2)[of e] by (simp add: waitForDevice_block_fail)
    next
      case (Inr b)
      then show ?thesis using True assms that(3)[of b] by (simp add: waitForDevice_block_ok)
    qed
  qed
  then have "fileName s' = fileName s \<and> opts s' = opts s \<and> deviceFileName s' = deviceFileName s \<and>
    adbArgs s' = adbArgs s \<and> args s' = args s \<and> recordingProcess s' = recordingProcess s \<and>
    waiting s' = waiting s \<and> connectOutput s' = connectOutput s"
    by cases simp_all
  then show "fileName s' = fileName s" "opts s' = opts s" "deviceFileName s' = deviceFileName s"
    "adbArgs s' = adbArgs s" "args s' = args s" "recordingProcess s' = recordingProcess s"
    "waiting s' = waiting s" "connectOutput s' = connectOutput s"
    by simp_all
qed

lemma handle_of_fields:
  "fileName (handle_of h s) = fileName s"
  "opts (handle_of h s) = opts s"
  "deviceFileName (handle_of h s) = deviceFileName s"
  "adbArgs (handle_of h s) = adbArgs s"
  "args (handle_of h s) = args s"
proof -
  have "fileName (handle_of h s) = fileName s \<and> opts (handle_of h s) = opts s \<and>
    deviceFileName (handle_of h s) = deviceFileName s \<and> adbArgs (handle_of h s) = adbArgs s \<and>
    args (handle_of h s) = args s"
  proof (cases "connect_block h s")
    case (Inl s1)
    then show ?thesis using connect_block_frame[of h s s1] by (simp add: handle_of_def)
  next
    case c: (Inr s1)
    show ?thesis
    proof (cases "waitForDevice_block h s1")
      case (Inl s2)
      then show ?thesis using c connect_block_frame[of h s s1] waitForDevice_block_frame[of h s1 s2]
        by (simp add: handle_of_def)
    next
      case (Inr s2)
      then show ?thesis using c connect_block_frame[of h s s1] waitForDevice_block_frame[of h s1 s2]
        by (simp add: handle_of_def recordingExecutor_def)
    qed
  qed
  then show "fileName (handle_of h s) = fileName s"
  "opts (handle_of h s) = opts s"
  "deviceFileName (handle_of h s) = deviceFileName s"
  "adbArgs (handle_of h s) = adbArgs s"
  "args (handle_of h s) = args s" by simp_all
qed

lemma initial_fields: 
  "fileName (initial_state h file c) = file"
  "opts (initial_state h file c) = c"
  "deviceFileName (initial_state h file c) = ''/sdcard/Movies/'' @ toString_hex (randomBytes h 16) @ ''.mp4''"
  "adbArgs (initial_state h file c) = buildADBArgs c"
  "args (initial_state h file c) = buildADBArgs c @ buildScreenRecordArgs (''/sdcard/Movies/'' @ toString_hex (randomBytes h 16) @ ''.mp4'') c"
  by (simp_all add: initial_state_def Let_def)

lemma recordScreen_fields:
  "fileName (returned h st file options) = file"
  "opts (returned h st file options) = merged_options st options"
  "deviceFileName (returned h st file options) =
     ''/sdcard/Movies/'' @ toString_hex (randomBytes h 16) @ ''.mp4''"
  "adbArgs (returned h st file options) = buildADBArgs (merged_options st options)"
  "args (returned h st file options) =
     buildADBArgs (merged_options st options) @
     buildScreenRecordArgs (''/sdcard/Movies/'' @ toString_hex (randomBytes h 16) @ ''.mp4'') (merged_options st options)"
  by (simp_all add: recordScreen_handle handle_of_fields initial_fields)

lemma assign_defaults:
  "serial (assign_props defaults c) = serial c"
  "transportID (assign_props defaults c) = transportID c"
  "hostname (assign_props defaults c) = hostname c"
  "bugreport (assign_props defaults c) = bugreport c"
  "size_opt (assign_props defaults c) = size_opt c"
  "bitRate (assign_props defaults c) = bitRate c"
  "timeLimit (assign_props defaults c) = timeLimit c"
  "port (assign_props defaults c) = (case port c of None \<Rightarrow> Some 5555 | Some p \<Rightarrow> Some p)"
  "waitTimeout (assign_props defaults c) = (case waitTimeout c of None \<Rightarrow> Some 5000 | Some p \<Rightarrow> Some p)"
  "pullDelay (assign_props defaults c) = (case pullDelay c of None \<Rightarrow> Some 200 | Some p \<Rightarrow> Some p)"
  by (simp_all add: assign_props_def assign_prop_def defaults_def empty_options_def split: option.splits)

lemma buildADBArgs_flags:
  "buildADBArgs c = string_flag ''-s'' (serial c) @ string_flag ''-t'' (transportID c)"
  by (cases "serial c"; cases "transportID c")
     (simp_all add: buildADBArgs_def string_flag_def truthy_string_def template_string_def)

lemma buildScreenRecordArgs_flags:
  "buildScreenRecordArgs file c =
     [''shell'', ''screenrecord'', ''--verbose''] @ boolean_flag ''--bugreport'' (bugreport c) @
     string_flag ''--size'' (size_opt c) @ number_flag ''--bit-rate'' (bitRate c) @
     number_flag ''--time-limit'' (timeLimit c) @ [file]"
  by (cases "bugreport c"; cases "size_opt c"; cases "bitRate c"; cases "timeLimit c")
     (simp_all add: buildScreenRecordArgs_def string_flag_def number_flag_def boolean_flag_def
        truthy_string_def truthy_number_def truthy_boolean_def template_string_def template_number_def)

subsection \<open>The handle as \<^verbatim>\<open>recordScreen\<close> returns it\<close>

lemma handle_of_connect_failed:
  assumes "truthy_string (hostname (opts s))" and "connect_result h (opts s) = Inl e"
  shows "handle_of h s = s\<lparr>calls := calls s @ [connect_call (opts s)], promise := Rejected e\<rparr>"
  using assms by (simp add: handle_of_def connect_block_fail)

lemma handle_of_wait_failed_after_connect:
  assumes "truthy_string (hostname (opts s))" and "connect_result h (opts s) = Inr b"
    and "truthy_number (waitTimeout (opts s))" and "wait_result h (opts s) = Inl e"
  shows "handle_of h s =
     s\<lparr>calls := calls s @ [connect_call (opts s), wait_call (opts s)],
       connectOutput := Some b, promise := Rejected e\<rparr>"
  using assms by (simp add: handle_of_def connect_block_ok waitForDevice_block_fail)

lemma handle_of_wait_failed_no_connect:
  assumes "\<not> truthy_string (hostname (opts s))"
    and "truthy_number (waitTimeout (opts s))" and "wait_result h (opts s) = Inl e"
  shows "handle_of h s = s\<lparr>calls := calls s @ [wait_call (opts s)], promise := Rejected e\<rparr>"
  using assms by (simp add: handle_of_def connect_block_skip waitForDevice_block_fail)

lemma handle_of_started:
  assumes "\<not> truthy_string (hostname (opts s)) \<and> co = None \<and> cc = [] \<or>
           truthy_string (hostname (opts s)) \<and> connect_result h (opts s) = Inr b \<and>
             co = Some b \<and> cc = [connect_call (opts s)]"
    and "\<not> truthy_number (waitTimeout (opts s)) \<and> wo = None \<and> wc = [] \<or>
         truthy_number (waitTimeout (opts s)) \<and> wait_result h (opts s) = Inr b' \<and>
           wo = Some b' \<and> wc = [wait_call (opts s)]"
    and "connectOutput s = None" and "waitForDeviceOutput s = None"
  shows "handle_of h s =
     s\<lparr>calls := calls s @ cc @ wc @ [ExecFile ''adb'' (args s)],
       connectOutput := co, waitForDeviceOutput := wo,
       recordingProcess := Some \<lparr>spawnargs = args s, proc_killed = False\<rparr>\<rparr>"
  using assms
  by (elim disjE conjE)
     (simp_all add: handle_of_def connect_block_skip connect_block_ok waitForDevice_block_skip
        waitForDevice_block_ok recordingExecutor_def)

lemma example_file_id:
  "toString_hex (randomBytes example_host 16) = ''abababababababababababababababab''"
  by code_simp

lemma initial_state_start:
  "connectOutput (initial_state h file c) = None"
  "waitForDeviceOutput (initial_state h file c) = None"
  "recordingProcess (initial_state h file c) = None"
  "waiting (initial_state h file c) = Idle"
  "promise (initial_state h file c) = Pending"
  "calls (initial_state h file c) = []"
  by (simp_all add: initial_state_def Let_def)

text \<open>
  The three ways in which \<^verbatim>\<open>recordScreen\<close> returns: the connect call failed, the wait
  call failed, or the recording was started.
\<close>

lemma handle_cases:
  fixes h st f options
  defines "s0 \<equiv> returned h st f options"
  obtains
    (connect_failed) e where
      "truthy_string (hostname (opts s0))" "connect_result h (opts s0) = Inl e"
      "promise s0 = Rejected e" "calls s0 = [connect_call (opts s0)]" "quiescent s0"
  | (wait_failed) e cc where
      "truthy_number (waitTimeout (opts s0))" "wait_result h (opts s0) = Inl e"
      "\<not> truthy_string (hostname (opts s0)) \<and> cc = [] \<or>
       truthy_string (hostname (opts s0)) \<and> (\<exists>b. connect_result h (opts s0) = Inr b) \<and>
         cc = [connect_call (opts s0)]"
      "promise s0 = Rejected e" "calls s0 = cc @ [wait_call (opts s0)]" "quiescent s0"
  | (started) co cc wo wc where
      "\<not> truthy_string (hostname (opts s0)) \<and> co = None \<and> cc = [] \<or>
       truthy_string (hostname (opts s0)) \<and> connect_result h (opts s0) = Inr (the co) \<and>
         co \<noteq> None \<and> cc = [connect_call (opts s0)]"
      "\<not> truthy_number (waitTimeout (opts s0)) \<and> wo = None \<and> wc = [] \<or>
       truthy_number (waitTimeout (opts s0)) \<and> wait_result h (opts s0) = Inr (the wo) \<and>
         wo \<noteq> None \<and> wc = [wait_call (opts s0)]"
      "promise s0 = Pending" "waiting s0 = Idle"
      "recordingProcess s0 = Some \<lparr>spawnargs = args s0, proc_killed = False\<rparr>"
      "calls s0 = cc @ wc @ [ExecFile ''adb'' (args s0)]"
      "connectOutput s0 = co" "waitForDeviceOutput s0 = wo"
proof -
  define i where "i = initial_state h f (merged_options st options)"
  have s0: "s0 = handle_of h i"
    by (simp add: s0_def i_def recordScreen_handle)
  have o: "opts s0 = opts i" and a: "args s0 = args i"
    by (simp_all add: s0 handle_of_fields)
  have i: "connectOutput i = None" "waitForDeviceOutput i = None" "recordingProcess i = None"
    "waiting i = Idle" "promise i = Pending" "calls i = []"
    by (simp_all add: i_def initial_state_start)
  show thesis
  proof (cases "truthy_string (hostname (opts i))")
    case hn: True
    show ?thesis
    proof (cases "connect_result h (opts i)")
      case (Inl e)
      have "s0 = i\<lparr>calls := calls i @ [connect_call (opts i)], promise := Rejected e\<rparr>"
        using hn Inl by (simp add: s0 handle_of_connect_failed)
      then show ?thesis using connect_failed[of e] hn Inl i o by (simp add: quiescent_def)
    next
      case c: (Inr b)
      show ?thesis
      proof (cases "truthy_number (waitTimeout (opts i))")
        case wt: True
        show ?thesis
        proof (cases "wait_result h (opts i)")
          case (Inl e)
          have "s0 = i\<lparr>calls := calls i @ [connect_call (opts i), wait_call (opts i)],
                  connectOutput := Some b, promise := Rejected e\<rparr>"
            using hn c wt Inl by (simp add: s0 handle_of_wait_failed_after_connect)
          then show ?thesis using wait_failed[of e "[connect_call (opts i)]"] hn c wt Inl i o
            by (simp add: quiescent_def)
        next
          case (Inr b')
          have "s0 = i\<lparr>calls := calls i @ [connect_call (opts i)] @ [wait_call (opts i)] @
                     [ExecFile ''adb'' (args i)],
                  connectOutput := Some b, waitForDeviceOutput := Some b',
                  recordingProcess := Some \<lparr>spawnargs = args i, proc_killed = False\<rparr>\<rparr>"
            unfolding s0 by (rule handle_of_started) (use hn c wt Inr i in simp_all)
          then show ?thesis
            using started[of "Some b" "[connect_call (opts i)]" "Some b'" "[wait_call (opts i)]"]
              hn c wt Inr i o a
            by simp
        qed
      next
        case wt: False
        have "s0 = i\<lparr>calls := calls i @ [connect_call (opts i)] @ [] @ [ExecFile ''adb'' (args i)],
                connectOutput := Some b, waitForDeviceOutput := None,
                recordingProcess := Some \<lparr>spawnargs = args i, proc_killed = False\<rparr>\<rparr>"
          unfolding s0 by (rule handle_of_started) (use hn c wt i in simp_all)
        then show ?thesis
          using started[of "Some b" "[connect_call (opts i)]" None "[]"] hn c wt i o a
          by simp
      qed
    qed
  next
    case hn: False
    show ?thesis
    proof (cases "truthy_number (waitTimeout (opts i))")
      case wt: True
      show ?thesis
      proof (cases "wait_result h (opts i)")
        case (Inl e)
        have "s0 = i\<lparr>calls := calls i @ [wait_call (opts i)], promise := Rejected e\<rparr>"
          using hn wt Inl by (simp add: s0 handle_of_wait_failed_no_connect)
        then show ?thesis using wait_failed[of e "[]"] hn wt Inl i o
          by (simp add: quiescent_def)
      next
        case (Inr b')
        have "s0 = i\<lparr>calls := calls i @ [] @ [wait_call (opts i)] @ [ExecFile ''adb'' (args i)],
                connectOutput := None, waitForDeviceOutput := Some b',
                recordingProcess := Some \<lparr>spawnargs = args i, proc_killed = False\<rparr>\<rparr>"
          unfolding s0 by (rule handle_of_started) (use hn wt Inr i in simp_all)
        then show ?thesis
          using started[of None "[]" "Some b'" "[wait_call (opts i)]"] hn wt Inr i o a
          by simp
      qed
    next
      case wt: False
      have "s0 = i\<lparr>calls := calls i @ [] @ [] @ [ExecFile ''adb'' (args i)],
              connectOutput := None, waitForDeviceOutput := None,
              recordingProcess := Some \<lparr>spawnargs = args i, proc_killed = False\<rparr>\<rparr>"
        unfolding s0 by (rule handle_of_started) (use hn wt i in simp_all)
      then show ?thesis
        using started[of None "[]" None "[]"] hn wt i o a
        by simp
    qed
  qed
qed

lemma stage_ok_handle:
  "stage_ok (returned h st f options) (returned h st f options)"
proof (cases h st f options rule: handle_cases)
  case (connect_failed e)
  then show ?thesis by (simp add: stage_ok_def stage_calls_def quiescent_def)
next
  case (wait_failed e cc)
  then show ?thesis by (simp add: stage_ok_def stage_calls_def quiescent_def)
next
  case (started co cc wo wc)
  then show ?thesis by (simp add: stage_ok_def stage_calls_def)
qed

lemma stage_ok_reachable:
  "stage_ok (returned h st f options) (run (returned h st f options) es)"
  by (rule stage_ok_run) (rule stage_ok_handle)

lemma stage_calls_cases:
  assumes "stage_calls s0 s"
  shows "calls s = calls s0 \<or> calls s = calls s0 @ [pull_call s0] \<or>
         calls s = calls s0 @ [pull_call s0, delete_call s0]"
  using assms
  by (auto simp: stage_calls_def split: option.splits waiting.splits promise_state.splits)

lemma handle_calls:
  "set (calls (returned h st f options)) \<subseteq>
     {connect_call (opts (returned h st f options)),
      wait_call (opts (returned h st f options)),
      ExecFile ''adb'' (args (returned h st f options))}"
proof (cases h st f options rule: handle_cases)
  case (connect_failed e)
  then show ?thesis by simp
next
  case (wait_failed e cc)
  then show ?thesis by auto
next
  case (started co cc wo wc)
  then show ?thesis by auto
qed

lemma reachable_calls:
  "set (calls (run (returned h st f options) es)) \<subseteq>
     {connect_call (opts (returned h st f options)),
      wait_call (opts (returned h st f options)),
      ExecFile ''adb'' (args (returned h st f options)),
      pull_call (returned h st f options),
      delete_call (returned h st f options)}"
proof -
  have "stage_calls (returned h st f options) (run (returned h st f options) es)"
    using stage_ok_reachable[of h st f options es] by (simp add: stage_ok_def)
  from stage_calls_cases[OF this] handle_calls[of h st f options] show ?thesis
    by auto
qed

lemma fst_recordScreen:
  "fst (recordScreen h st f options) =
     snd (Object_assign (snd (new_object st defaults)) (next_ref st) options)"
  by (simp add: recordScreen_def new_object_def Object_assign_def Let_def split: option.splits)

lemma assign_defaults_empty: "assign_props defaults empty_options = defaults"
  by (simp add: assign_props_def assign_prop_def defaults_def empty_options_def)

lemma example_host_execFileSync:
  "execFileSync example_host f a t = Inr (''<'' @ concat a @ ''>'')"
  by (simp add: example_host_def)

lemma example_merged_0:
  "merged_options example_store (Some 0) =
     empty_options\<lparr>serial := Some ''banana'', hostname := Some ''pixel'', port := Some 5555,
       waitTimeout := Some 5000, pullDelay := Some 200\<rparr>"
  by (simp add: merged_allocated allocated_def example_store_def caller_options_def
      assign_props_def assign_prop_def defaults_def empty_options_def)

subsection \<open>Reachable states\<close>

lemma reachable_recording:
  assumes "recordingProcess (run (returned h st f options) es) = Some child"
  shows "waiting (run (returned h st f options) es) = Idle"
    and "promise (run (returned h st f options) es) = Pending"
    and "calls (run (returned h st f options) es) = calls (returned h st f options)"
  using stage_ok_reachable[of h st f options es] assms
  by (simp_all add: stage_ok_def stage_calls_def)

lemma reachable_pulling:
  assumes "waiting (run (returned h st f options) es) = PullProcess r"
  shows "recordingProcess (run (returned h st f options) es) = None"
    and "promise (run (returned h st f options) es) = Pending"
    and "calls (run (returned h st f options) es) =
           calls (returned h st f options) @ [pull_call (returned h st f options)]"
  using stage_ok_reachable[of h st f options es] assms
  by (simp_all add: stage_ok_def stage_calls_def split: option.splits)

lemma reachable_deleting:
  assumes "waiting (run (returned h st f options) es) = DeleteProcess r"
  shows "recordingProcess (run (returned h st f options) es) = None"
    and "promise (run (returned h st f options) es) = Pending"
    and "calls (run (returned h st f options) es) =
           calls (returned h st f options) @
           [pull_call (returned h st f options),
            delete_call (returned h st f options)]"
  using stage_ok_reachable[of h st f options es] assms
  by (simp_all add: stage_ok_def stage_calls_def split: option.splits)

lemma reachable_settled:
  assumes "promise (run (returned h st f options) es) \<noteq> Pending"
  shows "quiescent (run (returned h st f options) es)"
  using stage_ok_reachable[of h st f options es] assms
  by (auto simp: stage_ok_def stage_calls_def quiescent_def split: option.splits waiting.splits)

lemma reachable_static:
  "opts (run (returned h st f options) es) = opts (returned h st f options)"
  "args (run (returned h st f options) es) = args (returned h st f options)"
  "connectOutput (run (returned h st f options) es) =
     connectOutput (returned h st f options)"
  "waitForDeviceOutput (run (returned h st f options) es) =
     waitForDeviceOutput (returned h st f options)"
  "pull_call (run (returned h st f options) es) = pull_call (returned h st f options)"
  "delete_call (run (returned h st f options) es) =
     delete_call (returned h st f options)"
  using static_fields[OF static_run, of "returned h st f options" es]
    static_calls[OF static_run, of "returned h st f options" es]
  by simp_all

lemma delete_command_not_screenrecord: "delete_command file \<noteq> ''screenrecord''"
  by (simp add: delete_command_def)

lemma later_calls_fresh:
  "pull_call (returned h st f options) \<notin> set (calls (returned h st f options))"
  "delete_call (returned h st f options) \<notin> set (calls (returned h st f options))"
  "pull_call (returned h st f options) \<noteq> delete_call (returned h st f options)"
proof -
  let ?s0 = "returned h st f options"
  have a: "args ?s0 = adbArgs ?s0 @ ''shell'' # ''screenrecord'' #
      tl (tl (buildScreenRecordArgs (deviceFileName ?s0) (opts ?s0)))"
    by (simp add: recordScreen_fields buildScreenRecordArgs_flags)
  have p: "pull_call ?s0 \<noteq> ExecFile ''adb'' (args ?s0)"
    by (simp add: a pull_call_def pullFile_args_def)
  have d: "delete_call ?s0 \<noteq> ExecFile ''adb'' (args ?s0)"
    by (simp add: a delete_call_def deleteFile_args_def delete_command_not_screenrecord)
  show "pull_call ?s0 \<notin> set (calls ?s0)"
    using handle_calls[of h st f options] p
    by (auto simp: pull_call_def connect_call_def wait_call_def)
  show "delete_call ?s0 \<notin> set (calls ?s0)"
    using handle_calls[of h st f options] d
    by (auto simp: delete_call_def connect_call_def wait_call_def)
  show "pull_call ?s0 \<noteq> delete_call ?s0"
    by (simp add: pull_call_def delete_call_def pullFile_args_def deleteFile_args_def)
qed

lemma example_merged_None: "merged_options example_store None = defaults"
  by (simp add: merged_allocated allocated_def caller_options_def assign_defaults_empty)

lemma offline_host_execFileSync: "execFileSync offline_host f a t = Inl (example_error a)"
  by (simp add: offline_host_def)

lemma example_handle_value:
  "returned example_host example_store ''/tmp/test.mp4'' (Some 0) =
     \<lparr>fileName = ''/tmp/test.mp4'',
      opts = empty_options\<lparr>serial := Some ''banana'', hostname := Some ''pixel'',
               port := Some 5555, waitTimeout := Some 5000, pullDelay := Some 200\<rparr>,
      deviceFileName = ''/sdcard/Movies/abababababababababababababababab.mp4'',
      adbArgs = [''-s'', ''banana''],
      args = [''-s'', ''banana'', ''shell'', ''screenrecord'', ''--verbose'',
              ''/sdcard/Movies/abababababababababababababababab.mp4''],
      connectOutput = Some ''<connectpixel:5555>'',
      waitForDeviceOutput = Some ''<wait-for-device>'',
      recordingProcess =
        Some \<lparr>spawnargs = [''-s'', ''banana'', ''shell'', ''screenrecord'', ''--verbose'',
                            ''/sdcard/Movies/abababababababababababababababab.mp4''],
              proc_killed = False\<rparr>,
      waiting = Idle, promise = Pending,
      calls = [ExecFileSync ''adb'' [''connect'', ''pixel:5555''] None,
               ExecFileSync ''adb'' [''wait-for-device''] (Some 5000),
               ExecFile ''adb''
                 [''-s'', ''banana'', ''shell'', ''screenrecord'', ''--verbose'',
                  ''/sdcard/Movies/abababababababababababababababab.mp4'']]\<rparr>"
  by (simp add: recordScreen_handle example_merged_0 handle_of_def connect_block_def
      waitForDevice_block_def recordingExecutor_def initial_state_def Let_def example_file_id
      buildADBArgs_flags buildScreenRecordArgs_flags string_flag_def boolean_flag_def
      number_flag_def truthy_string_def truthy_number_def truthy_boolean_def template_string_def
      template_number_def connect_args_def String_number_def digits10.simps empty_options_def
      example_host_execFileSync)

lemma stop_after_delivery:
  assumes "recordingProcess s = Some p" and "proc_killed p"
  shows "step s (Stop k) = s"
  using assms by (cases k) (simp_all add: step.simps stop_def ChildProcess_kill_def)

lemma stops_after_delivery:
  assumes "recordingProcess s = Some p" and "proc_killed p"
  shows "run s (map Stop ks) = s"
  using assms by (induction ks) (simp_all add: run_Nil run_Cons stop_after_delivery)

lemma offline_handle_promise:
  "promise (returned offline_host example_store ''/tmp/test.mp4'' (Some 0)) =
     Rejected (example_error [''connect'', ''pixel:5555''])"
  by (simp add: recordScreen_handle example_merged_0 handle_of_def connect_block_def
      initial_state_def Let_def truthy_string_def template_string_def template_number_def
      connect_args_def String_number_def digits10.simps empty_options_def
      offline_host_execFileSync)

text \<open>The definitions that evaluate a run of the example handle.\<close>

lemmas example_eval =
  example_handle_def example_handle_value example_args_def run_Nil run_Cons step.simps
  recordingCallback_def exithandler_def stop_def ChildProcess_kill_def Let_def join_empty_def
  pullFile_def pullFile_args_def pull_call_def deleteFile_def deleteFile_args_def delete_call_def
  pullFile_then_def deleteFile_then_def empty_options_def match_progress_def
  dot_plus_newline_def dot_def

subsection \<open>The pattern, line by line\<close>

lemma dots_newline_line:
  "CHR 0x0A \<notin> set b \<Longrightarrow>
     dots_newline (b @ CHR 0x0A # rest) = (if list_all dot b then Some (Suc (length b)) else None)"
  by (induction b) (auto simp: dot_def)

lemma dot_plus_newline_line:
  "CHR 0x0A \<notin> set b \<Longrightarrow>
     dot_plus_newline (b @ CHR 0x0A # rest) =
       (if b \<noteq> [] \<and> list_all dot b then Some (Suc (length b)) else None)"
  by (cases b) (auto simp: dot_plus_newline_def dots_newline_line dot_def)

lemma not_newline_star_percent_line:
  "CHR 0x0A \<notin> set b \<Longrightarrow>
     not_newline_star_percent (b @ CHR 0x0A # rest) =
       (if percent_then_dots b then Some (Suc (length b)) else None)"
proof (induction b)
  case Nil
  then show ?case by simp
next
  case (Cons c cs)
  then have "CHR 0x0A \<notin> set cs" "c \<noteq> CHR 0x0A" by auto
  with Cons.IH show ?case
    by (simp add: dot_plus_newline_line)
qed

lemma match_progress_line:
  "CHR 0x0A \<notin> set b \<Longrightarrow>
     match_progress (b @ CHR 0x0A # rest) =
       (if progress_line (b @ [CHR 0x0A]) then Some (Suc (length b)) else None)"
  by (cases b) (auto simp: match_progress_def progress_line_def not_newline_star_percent_line)

lemma dots_newline_no_newline: "CHR 0x0A \<notin> set s \<Longrightarrow> dots_newline s = None"
  by (induction s) auto

lemma not_newline_star_percent_no_newline:
  "CHR 0x0A \<notin> set s \<Longrightarrow> not_newline_star_percent s = None"
  by (induction s) (auto simp: dot_plus_newline_def dots_newline_no_newline split: list.splits)

lemma match_progress_no_newline: "CHR 0x0A \<notin> set s \<Longrightarrow> match_progress s = None"
  by (cases s) (auto simp: match_progress_def not_newline_star_percent_no_newline)

lemma percent_then_dots_Cons: "percent_then_dots cs \<Longrightarrow> percent_then_dots (c # cs)"
  by simp

lemma progress_line_body:
  "CHR 0x0A \<notin> set b \<Longrightarrow>
     progress_line (b @ [CHR 0x0A]) = (b \<noteq> [] \<and> percent_then_dots (tl b))"
  by (cases b) (auto simp: progress_line_def)

lemma progress_line_tail:
  assumes "CHR 0x0A \<notin> set (c # cs)" and "\<not> progress_line ((c # cs) @ [CHR 0x0A])"
  shows "\<not> progress_line (cs @ [CHR 0x0A])"
proof
  assume "progress_line (cs @ [CHR 0x0A])"
  then have "cs \<noteq> []" "percent_then_dots (tl cs)"
    using assms(1) by (simp_all add: progress_line_body)
  then have "percent_then_dots cs"
    by (cases cs) simp_all
  then show False using assms(2) progress_line_body[OF assms(1)] by simp
qed

lemma replace_progress_drop_line:
  assumes "CHR 0x0A \<notin> set b" and "progress_line (b @ [CHR 0x0A])"
  shows "replace_progress (b @ CHR 0x0A # rest) = replace_progress rest"
proof (cases b)
  case Nil
  then show ?thesis using assms by (simp add: progress_line_def)
next
  case (Cons c cs)
  have "match_progress (b @ CHR 0x0A # rest) = Some (Suc (length b))"
    using match_progress_line[OF assms(1), of rest] assms(2) by simp
  then show ?thesis using Cons by simp
qed

lemma replace_progress_keep_line:
  assumes "CHR 0x0A \<notin> set b" and "\<not> progress_line (b @ [CHR 0x0A])"
  shows "replace_progress (b @ CHR 0x0A # rest) = b @ CHR 0x0A # replace_progress rest"
  using assms
proof (induction b)
  case Nil
  then show ?case by (simp add: match_progress_def)
next
  case (Cons c cs)
  have "match_progress ((c # cs) @ CHR 0x0A # rest) = None"
    using match_progress_line[OF Cons.prems(1), of rest] Cons.prems(2) by simp
  moreover have "replace_progress (cs @ CHR 0x0A # rest) = cs @ CHR 0x0A # replace_progress rest"
    using Cons.IH Cons.prems progress_line_tail[of c cs] by simp
  ultimately show ?case by simp
qed

lemma replace_progress_no_newline: "CHR 0x0A \<notin> set s \<Longrightarrow> replace_progress s = s"
proof (induction s)
  case Nil
  then show ?case by simp
next
  case (Cons c cs)
  then have "match_progress (c # cs) = None"
    by (intro match_progress_no_newline) simp
  with Cons show ?case by simp
qed

lemma lines_nl_line:
  "CHR 0x0A \<notin> set b \<Longrightarrow> lines_nl (b @ CHR 0x0A # rest) = (b @ [CHR 0x0A]) # lines_nl rest"
  by (induction b) auto

lemma lines_nl_no_newline:
  "CHR 0x0A \<notin> set s \<Longrightarrow> lines_nl s = (if s = [] then [] else [s])"
  by (induction s) (auto split: list.splits)

lemma progress_line_needs_newline: "CHR 0x0A \<notin> set s \<Longrightarrow> \<not> progress_line s"
  by (cases s) (auto simp: progress_line_def dest: last_in_set)

lemma first_line:
  assumes "CHR 0x0A \<in> set s"
  obtains b rest where "s = b @ CHR 0x0A # rest" "CHR 0x0A \<notin> set b"
  using assms split_list_first[of "CHR 0x0A" s] by blast

lemma replace_progress_lines:
  "replace_progress s = concat (filter (\<lambda>l. \<not> progress_line l) (lines_nl s))"
proof (induction s rule: length_induct)
  case (1 s)
  show ?case
  proof (cases "CHR 0x0A \<in> set s")
    case False
    then show ?thesis
      by (simp add: replace_progress_no_newline lines_nl_no_newline progress_line_needs_newline)
  next
    case True
    then obtain b rest where s: "s = b @ CHR 0x0A # rest" and b: "CHR 0x0A \<notin> set b"
      by (rule first_line)
    have "length rest < length s" by (simp add: s)
    with 1 have IH: "replace_progress rest =
        concat (filter (\<lambda>l. \<not> progress_line l) (lines_nl rest))"
      by blast
    show ?thesis
    proof (cases "progress_line (b @ [CHR 0x0A])")
      case True
      then show ?thesis
        using b IH by (simp add: s replace_progress_drop_line lines_nl_line)
    next
      case False
      then show ?thesis
        using b IH by (simp add: s replace_progress_keep_line lines_nl_line)
    qed
  qed
qed

lemma lines_nl_replace_progress:
  "lines_nl (replace_progress s) = filter (\<lambda>l. \<not> progress_line l) (lines_nl s)"
proof (induction s rule: length_induct)
  case (1 s)
  show ?case
  proof (cases "CHR 0x0A \<in> set s")
    case False
    then show ?thesis
      by (simp add: replace_progress_no_newline lines_nl_no_newline progress_line_needs_newline)
  next
    case True
    then obtain b rest where s: "s = b @ CHR 0x0A # rest" and b: "CHR 0x0A \<notin> set b"
      by (rule first_line)
    have "length rest < length s" by (simp add: s)
    with 1 have IH: "lines_nl (replace_progress rest) =
        filter (\<lambda>l. \<not> progress_line l) (lines_nl rest)"
      by blast
    show ?thesis
    proof (cases "progress_line (b @ [CHR 0x0A])")
      case True
      then show ?thesis
        using b IH by (simp add: s replace_progress_drop_line lines_nl_line)
    next
      case False
      then show ?thesis
        using b IH by (simp add: s replace_progress_keep_line lines_nl_line)
    qed
  qed
qed

subsection \<open>Calls of \<^verbatim>\<open>stop\<close> between the steps\<close>

lemma run_stops_idle: "recordingProcess s = None \<Longrightarrow> run s (map Stop ks) = s"
  by (induction ks) (simp_all add: run_Nil run_Cons step.simps stop_def)

lemma recordingProcess_same:
  "recordingProcess s = Some p \<Longrightarrow> s\<lparr>recordingProcess := Some p\<rparr> = s"
  by (cases s) simp

lemma step_stop_recording:
  assumes "recordingProcess s = Some p"
  shows "\<exists>p'. step s (Stop k) = s\<lparr>recordingProcess := Some p'\<rparr>"
proof (cases k)
  case Delivered
  then show ?thesis using assms
    by (intro exI[of _ "p\<lparr>proc_killed := True\<rparr>"])
       (simp add: step.simps stop_def ChildProcess_kill_def)
next
  case NotDelivered
  then show ?thesis using assms
    by (intro exI[of _ p]) (simp add: step.simps stop_def ChildProcess_kill_def)
next
  case KillThrows
  then show ?thesis using assms
    by (intro exI[of _ p])
       (simp add: step.simps stop_def ChildProcess_kill_def recordingProcess_same)
qed

lemma run_stops_recording:
  assumes "recordingProcess s = Some p"
  shows "\<exists>p'. run s (map Stop ks) = s\<lparr>recordingProcess := Some p'\<rparr>"
  using assms
proof (induction ks arbitrary: s p)
  case Nil
  then show ?case by (intro exI[of _ p]) (simp add: run_Nil recordingProcess_same)
next
  case (Cons k ks)
  from step_stop_recording[OF Cons.prems, of k]
  obtain p1 where p1: "step s (Stop k) = s\<lparr>recordingProcess := Some p1\<rparr>" by blast
  from Cons.IH[of "s\<lparr>recordingProcess := Some p1\<rparr>" p1]
  obtain p2 where "run (s\<lparr>recordingProcess := Some p1\<rparr>) (map Stop ks) =
      s\<lparr>recordingProcess := Some p2\<rparr>"
    by auto
  then have "run s (map Stop (k # ks)) = s\<lparr>recordingProcess := Some p2\<rparr>"
    by (simp add: run_Cons p1)
  then show ?case by (rule exI)
qed

lemma wait_call_absent:
  assumes "waitTimeout (opts (returned h st f options)) = Some 0"
  shows "ExecFileSync ''adb'' [''wait-for-device''] t
           \<notin> set (calls (run (returned h st f options) es))"
proof -
  let ?init = "returned h st f options"
  have nt: "\<not> truthy_number (waitTimeout (opts ?init))"
    using assms by (simp add: truthy_number_def)
  have "ExecFileSync ''adb'' [''wait-for-device''] t \<notin> set (calls ?init)"
  proof (cases h st f options rule: handle_cases)
    case (connect_failed e)
    then show ?thesis by (simp add: connect_call_def connect_args_def)
  next
    case (wait_failed e cc)
    then show ?thesis using nt by simp
  next
    case (started co cc wo wc)
    then show ?thesis using nt by (auto simp: connect_call_def connect_args_def)
  qed
  moreover have "stage_calls ?init (run ?init es)"
    using stage_ok_reachable[of h st f options es] by (simp add: stage_ok_def)
  ultimately show ?thesis
    using stage_calls_cases[of ?init "run ?init es"]
    by (auto simp: pull_call_def delete_call_def)
qed

lemma example_merged_2:
  "merged_options example_store (Some 2) =
     empty_options\<lparr>transportID := Some ''7'', port := Some 5555, waitTimeout := Some 0,
       bugreport := Some True, size_opt := Some ''1x1'', bitRate := Some 400,
       timeLimit := Some 9, pullDelay := Some 200\<rparr>"
  by (simp add: merged_allocated allocated_def example_store_def caller_options_def
      assign_props_def assign_prop_def defaults_def empty_options_def)

lemma example_handle_2:
  "opts (returned example_host example_store ''/tmp/test.mp4'' (Some 2)) =
     empty_options\<lparr>transportID := Some ''7'', port := Some 5555, waitTimeout := Some 0,
       bugreport := Some True, size_opt := Some ''1x1'', bitRate := Some 400,
       timeLimit := Some 9, pullDelay := Some 200\<rparr>"
  "promise (returned example_host example_store ''/tmp/test.mp4'' (Some 2)) = Pending"
  by (simp_all add: recordScreen_handle example_merged_2 handle_of_def connect_block_def waitForDevice_block_def
      recordingExecutor_def initial_state_def Let_def truthy_string_def truthy_number_def
      empty_options_def)

lemma step_stop_undelivered:
  "k \<noteq> Delivered \<Longrightarrow> step s (Stop k) = s"
  by (cases k; cases "recordingProcess s")
     (simp_all add: step.simps stop_def ChildProcess_kill_def recordingProcess_same)

lemma run_stops_after_first:
  "run (step s (Stop Delivered)) (map Stop ks) = step s (Stop Delivered)"
proof (cases "recordingProcess s")
  case None
  then have "step s (Stop Delivered) = s"
    by (simp add: step.simps stop_def)
  then show ?thesis using None by (simp add: run_stops_idle)
next
  case (Some p)
  then have "step s (Stop Delivered) = s\<lparr>recordingProcess := Some (p\<lparr>proc_killed := True\<rparr>)\<rparr>"
    by (simp add: step.simps stop_def ChildProcess_kill_def)
  then show ?thesis
    using stops_after_delivery[of "s\<lparr>recordingProcess := Some (p\<lparr>proc_killed := True\<rparr>)\<rparr>"
        "p\<lparr>proc_killed := True\<rparr>" ks]
    by simp
qed

lemma run_stops:
  "run s (map Stop ks) = (if Delivered \<in> set ks then step s (Stop Delivered) else s)"
proof (induction ks)
  case Nil
  then show ?case by (simp add: run_Nil)
next
  case (Cons k ks)
  show ?case
  proof (cases "k = Delivered")
    case True
    then show ?thesis by (simp add: run_Cons run_stops_after_first)
  next
    case False
    then show ?thesis using Cons.IH by (simp add: run_Cons step_stop_undelivered)
  qed
qed

lemma example_caller_0:
  "allocated example_store (Some 0)"
  "caller_options example_store (Some 0) =
     empty_options\<lparr>serial := Some ''banana'', hostname := Some ''pixel''\<rparr>"
  by (simp_all add: allocated_def caller_options_def example_store_def)

text \<open>
  Lines with a percent sign that the pattern does not match, and that the replacement
  therefore keeps: nothing behind the percent sign, nothing before it, no newline at the
  end, a carriage return between the percent sign and the newline.
\<close>

lemma replace_progress_keeps:
  "replace_progress (''50%'' @ [CHR 0x0A]) = ''50%'' @ [CHR 0x0A]"
  "replace_progress (''%abc'' @ [CHR 0x0A]) = ''%abc'' @ [CHR 0x0A]"
  "replace_progress ''[ 50%] x'' = ''[ 50%] x''"
  "replace_progress (''[ 50%] x'' @ [CHR 0x0D, CHR 0x0A]) = ''[ 50%] x'' @ [CHR 0x0D, CHR 0x0A]"
  by (simp_all add: match_progress_def dot_plus_newline_def dot_def)

lemma replace_progress_drops:
  "replace_progress (''[ 50%] x'' @ [CHR 0x0A] @ ''done'') = ''done''"
  by (simp add: match_progress_def dot_plus_newline_def dot_def)

subsection \<open>The assembled commands\<close>

text \<open>
  Claim C3.  For every options object the caller can pass, the record command is a
  function of the options and of the random file name, and has one fixed shape: the
  device selectors (\<open>-s\<close> with the serial, then \<open>-t\<close> with the transport id), then
  \<open>shell screenrecord --verbose\<close>, then \<open>--bugreport\<close> exactly when \<open>bugreport\<close> is
  truthy, \<open>--size\<close> and its value exactly when \<open>size\<close> is set (to a string that is not
  empty: the condition of the source is truthiness for all four options), \<open>--bit-rate\<close>
  and its value exactly when \<open>bitRate\<close> is truthy, \<open>--time-limit\<close> and its value exactly
  when \<open>timeLimit\<close> is truthy, and the remote file name last.
\<close>

theorem record_command_shape:
  "allocated st options \<Longrightarrow>
     args (returned h st file options) =
       string_flag ''-s'' (serial (caller_options st options)) @
       string_flag ''-t'' (transportID (caller_options st options)) @
       [''shell'', ''screenrecord'', ''--verbose''] @
       boolean_flag ''--bugreport'' (bugreport (caller_options st options)) @
       string_flag ''--size'' (size_opt (caller_options st options)) @
       number_flag ''--bit-rate'' (bitRate (caller_options st options)) @
       number_flag ''--time-limit'' (timeLimit (caller_options st options)) @
       [''/sdcard/Movies/'' @ toString_hex (randomBytes h 16) @ ''.mp4'']"
  by (simp add: recordScreen_fields merged_allocated buildADBArgs_flags
      buildScreenRecordArgs_flags assign_defaults)

theorem record_command_shape_witness:
  "allocated example_store (Some 2) \<and>
   args (returned example_host example_store ''/tmp/test.mp4'' (Some 2)) =
     [''-t'', ''7'', ''shell'', ''screenrecord'', ''--verbose'', ''--bugreport'', ''--size'', ''1x1'',
      ''--bit-rate'', ''400'', ''--time-limit'', ''9'',
      ''/sdcard/Movies/abababababababababababababababab.mp4'']"
  using record_command_shape [of example_store "Some 2" example_host "''/tmp/test.mp4''"]
  by (simp add: allocated_def caller_options_def example_store_def empty_options_def
      example_file_id string_flag_def number_flag_def boolean_flag_def truthy_string_def
      truthy_number_def truthy_boolean_def template_string_def template_number_def
      String_number_def digits10.simps)

text \<open>
  Claim C2, as stated, fails.  Called without options, \<^verbatim>\<open>recordScreen\<close> merges no value
  for \<open>bitRate\<close> or \<open>timeLimit\<close>, and the record command has neither flag.
\<close>

theorem default_command_counterexample:
  "bitRate (opts (returned example_host example_store ''/tmp/test.mp4'' None)) = None \<and>
   timeLimit (opts (returned example_host example_store ''/tmp/test.mp4'' None)) = None \<and>
   args (returned example_host example_store ''/tmp/test.mp4'' None) =
     [''shell'', ''screenrecord'', ''--verbose'',
      ''/sdcard/Movies/abababababababababababababababab.mp4'']"
  by (simp add: recordScreen_fields merged_allocated allocated_def caller_options_def
      assign_defaults empty_options_def buildADBArgs_flags buildScreenRecordArgs_flags
      example_file_id string_flag_def number_flag_def boolean_flag_def truthy_string_def
      truthy_number_def truthy_boolean_def)

text \<open>
  Claim C2, amended.  When the caller sets neither \<open>bitRate\<close> nor \<open>timeLimit\<close>, the
  merged options hold no value for them (the merge supplies \<open>port\<close>, \<open>waitTimeout\<close> and
  \<open>pullDelay\<close> only), and the record command carries neither \<open>--bit-rate\<close> nor
  \<open>--time-limit\<close>: after the selectors and \<open>shell screenrecord --verbose\<close> come only
  \<open>--bugreport\<close> and \<open>--size\<close>, each if set, and the remote file name.
\<close>

theorem default_command_amended:
  "allocated st options \<Longrightarrow>
   bitRate (caller_options st options) = None \<Longrightarrow>
   timeLimit (caller_options st options) = None \<Longrightarrow>
     bitRate (opts (returned h st file options)) = None \<and>
     timeLimit (opts (returned h st file options)) = None \<and>
     args (returned h st file options) =
       string_flag ''-s'' (serial (caller_options st options)) @
       string_flag ''-t'' (transportID (caller_options st options)) @
       [''shell'', ''screenrecord'', ''--verbose''] @
       boolean_flag ''--bugreport'' (bugreport (caller_options st options)) @
       string_flag ''--size'' (size_opt (caller_options st options)) @
       [''/sdcard/Movies/'' @ toString_hex (randomBytes h 16) @ ''.mp4'']"
  by (simp add: recordScreen_fields merged_allocated buildADBArgs_flags
      buildScreenRecordArgs_flags assign_defaults number_flag_def truthy_number_def)

theorem default_command_amended_witness:
  "allocated example_store (Some 0) \<and>
   bitRate (caller_options example_store (Some 0)) = None \<and>
   timeLimit (caller_options example_store (Some 0)) = None \<and>
   bitRate (opts (returned example_host example_store ''/tmp/test.mp4'' (Some 0))) = None \<and>
   timeLimit (opts (returned example_host example_store ''/tmp/test.mp4'' (Some 0))) = None \<and>
   args (returned example_host example_store ''/tmp/test.mp4'' (Some 0)) =
     [''-s'', ''banana'', ''shell'', ''screenrecord'', ''--verbose'',
      ''/sdcard/Movies/abababababababababababababababab.mp4'']"
  using default_command_amended [of example_store "Some 0" example_host "''/tmp/test.mp4''"]
  by (simp add: allocated_def caller_options_def example_store_def empty_options_def
      example_file_id string_flag_def boolean_flag_def truthy_string_def truthy_boolean_def
      template_string_def)

text \<open>
  Claim C1, as stated, fails.  With a serial and a host name set, the connect call and
  the wait call are made without the selector; only the record call carries it.
\<close>

theorem selectors_counterexample:
  "adbArgs (returned example_host example_store ''/tmp/test.mp4'' (Some 0)) =
     [''-s'', ''banana''] \<and>
   calls (returned example_host example_store ''/tmp/test.mp4'' (Some 0)) =
     [ExecFileSync ''adb'' [''connect'', ''pixel:5555''] None,
      ExecFileSync ''adb'' [''wait-for-device''] (Some 5000),
      ExecFile ''adb''
        [''-s'', ''banana'', ''shell'', ''screenrecord'', ''--verbose'',
         ''/sdcard/Movies/abababababababababababababababab.mp4'']]"
  by (simp add: recordScreen_handle example_merged_0 handle_of_def connect_block_def
      waitForDevice_block_def recordingExecutor_def initial_state_def Let_def example_file_id
      buildADBArgs_flags buildScreenRecordArgs_flags string_flag_def boolean_flag_def
      number_flag_def truthy_string_def truthy_number_def truthy_boolean_def template_string_def
      template_number_def connect_args_def String_number_def digits10.simps empty_options_def
      example_host_execFileSync)

text \<open>
  Claim C1, amended.  Whatever happens after \<^verbatim>\<open>recordScreen\<close> has returned, every
  asynchronous call of the tool that the handle has made is the record, the pull or the
  delete call, and each of them starts with the device selectors (the serial first, then
  the transport id, each if set to a string that is not empty).  The connect call, the
  one synchronous call that is not \<open>wait-for-device\<close>, is exactly \<open>connect host:port\<close>: it
  carries no selector.
\<close>

theorem selectors_amended:
  "allocated st options \<Longrightarrow>
     (let c = caller_options st options;
          m = assign_props defaults c;
          dev = ''/sdcard/Movies/'' @ toString_hex (randomBytes h 16) @ ''.mp4'';
          made = set (calls (run (returned h st f options) es))
      in (\<forall>file a. ExecFile file a \<in> made \<longrightarrow>
            file = ''adb'' \<and>
            (a = selectors c @ buildScreenRecordArgs dev m \<or>
             a = selectors c @ [''pull'', ''-a'', dev, f] \<or>
             a = selectors c @ [''shell'', delete_command dev])) \<and>
         (\<forall>file a t. ExecFileSync file a t \<in> made \<and> a \<noteq> [''wait-for-device''] \<longrightarrow>
            file = ''adb'' \<and> t = None \<and>
            a = [''connect'', template_string (hostname c) @ '':'' @ template_number (port m)]))"
proof -
  assume al: "allocated st options"
  let ?init = "returned h st f options"
  have sub: "set (calls (run ?init es)) \<subseteq>
     {connect_call (opts ?init), wait_call (opts ?init), ExecFile ''adb'' (args ?init),
      pull_call ?init, delete_call ?init}"
    by (rule reachable_calls)
  have async: "file = ''adb'' \<and>
      (a = args ?init \<or> a = pullFile_args ?init \<or> a = deleteFile_args ?init)"
    if "ExecFile file a \<in> set (calls (run ?init es))" for "file" a
    using that sub by (auto simp: connect_call_def wait_call_def pull_call_def delete_call_def)
  have sync: "file = ''adb'' \<and> t = None \<and> a = connect_args (opts ?init)"
    if "ExecFileSync file a t \<in> set (calls (run ?init es))" "a \<noteq> [''wait-for-device'']"
    for "file" a t
    using that sub by (auto simp: connect_call_def wait_call_def pull_call_def delete_call_def)
  let ?c = "caller_options st options"
  let ?m = "assign_props defaults ?c"
  let ?dev = "''/sdcard/Movies/'' @ toString_hex (randomBytes h 16) @ ''.mp4''"
  have fields: "args ?init = selectors ?c @ buildScreenRecordArgs ?dev ?m"
    "pullFile_args ?init = selectors ?c @ [''pull'', ''-a'', ?dev, f]"
    "deleteFile_args ?init = selectors ?c @ [''shell'', delete_command ?dev]"
    "connect_args (opts ?init) =
       [''connect'', template_string (hostname ?c) @ '':'' @ template_number (port ?m)]"
    by (simp_all add: recordScreen_fields merged_allocated[OF al] connect_args_def
        pullFile_args_def deleteFile_args_def buildADBArgs_flags selectors_def assign_defaults)
  show ?thesis
    unfolding Let_def
  proof (rule conjI; intro allI impI)
    fix prog a
    assume "ExecFile prog a \<in> set (calls (run ?init es))"
    from async[OF this]
    show "prog = ''adb'' \<and>
            (a = selectors ?c @ buildScreenRecordArgs ?dev ?m \<or>
             a = selectors ?c @ [''pull'', ''-a'', ?dev, f] \<or>
             a = selectors ?c @ [''shell'', delete_command ?dev])"
      unfolding fields .
  next
    fix prog a t
    assume "ExecFileSync prog a t \<in> set (calls (run ?init es)) \<and> a \<noteq> [''wait-for-device'']"
    then have "prog = ''adb'' \<and> t = None \<and> a = connect_args (opts ?init)"
      using sync[of prog a t] by blast
    then show "prog = ''adb'' \<and> t = None \<and>
      a = [''connect'', template_string (hostname ?c) @ '':'' @ template_number (port ?m)]"
      unfolding fields .
  qed
qed

theorem selectors_amended_witness:
  "allocated example_store (Some 0) \<and>
   ExecFile ''adb''
     [''-s'', ''banana'', ''pull'', ''-a'',
      ''/sdcard/Movies/abababababababababababababababab.mp4'', ''/tmp/test.mp4'']
     \<in> set (calls (run (returned example_host example_store ''/tmp/test.mp4'' (Some 0))
                 [RecordExit ExitOk ''rec'' [], Timeout])) \<and>
   ExecFileSync ''adb'' [''connect'', ''pixel:5555''] None
     \<in> set (calls (run (returned example_host example_store ''/tmp/test.mp4'' (Some 0))
                 [RecordExit ExitOk ''rec'' [], Timeout])) \<and>
   [''connect'', ''pixel:5555''] \<noteq> [''wait-for-device''] \<and>
   selectors (caller_options example_store (Some 0)) = [''-s'', ''banana''] \<and>
   [''connect'',
    template_string (hostname (caller_options example_store (Some 0))) @ '':'' @
    template_number (port (assign_props defaults (caller_options example_store (Some 0))))] =
     [''connect'', ''pixel:5555'']"
  using selectors_amended [of example_store "Some 0" example_host "''/tmp/test.mp4''"
      "[RecordExit ExitOk ''rec'' [], Timeout]"]
  by (simp add: Let_def example_caller_0 assign_defaults
      selectors_def string_flag_def truthy_string_def template_string_def template_number_def
      String_number_def digits10.simps example_handle_value run_Nil run_Cons step.simps
      recordingCallback_def exithandler_def Let_def join_empty_def pullFile_def
      pullFile_args_def empty_options_def)

subsection \<open>The sequence of steps\<close>

text \<open>
  Claim C5.  When the connect call (made if \<open>hostname\<close> is set) throws, or when the wait
  call (made if \<open>waitTimeout\<close> is not zero, and bounded by it) throws after the connect
  call has succeeded or was not due, \<^verbatim>\<open>recordScreen\<close> returns a handle whose promise is
  rejected with that error.  The calls made are the connect call alone, or the connect
  call (if due) and the wait call.  No event changes this handle any more, so neither the
  record nor the pull nor the delete call is ever made, and \<^verbatim>\<open>stop\<close> returns without
  effect whatever the host would answer to a signal.
\<close>

theorem preflight_failure_aborts:
  "(let s0 = returned h st f options; c = opts s0 in
     (truthy_string (hostname c) \<and> connect_result h c = Inl e \<longrightarrow>
        promise s0 = Rejected e \<and> calls s0 = [connect_call c] \<and>
        (\<forall>es. run s0 es = s0) \<and> (\<forall>k. stop k s0 = Inr s0)) \<and>
     (truthy_number (waitTimeout c) \<and> wait_result h c = Inl e \<and>
      (truthy_string (hostname c) \<longrightarrow> (\<exists>b. connect_result h c = Inr b)) \<longrightarrow>
        promise s0 = Rejected e \<and>
        calls s0 = (if truthy_string (hostname c) then [connect_call c] else []) @ [wait_call c] \<and>
        (\<forall>es. run s0 es = s0) \<and> (\<forall>k. stop k s0 = Inr s0)))"
proof (cases h st f options rule: handle_cases)
  case (connect_failed e')
  then show ?thesis
    by (auto simp: Let_def quiescent_run stop_def quiescent_def)
next
  case (wait_failed e' cc)
  then show ?thesis
    by (auto simp: Let_def quiescent_run stop_def quiescent_def)
next
  case (started co cc wo wc)
  then show ?thesis
    by (auto simp: Let_def)
qed

theorem preflight_failure_aborts_witness:
  "truthy_string (hostname (opts (returned offline_host example_store ''/tmp/test.mp4'' (Some 0)))) \<and>
   connect_result offline_host
     (opts (returned offline_host example_store ''/tmp/test.mp4'' (Some 0))) =
     Inl (example_error [''connect'', ''pixel:5555'']) \<and>
   promise (returned offline_host example_store ''/tmp/test.mp4'' (Some 0)) =
     Rejected (example_error [''connect'', ''pixel:5555'']) \<and>
   calls (returned offline_host example_store ''/tmp/test.mp4'' (Some 0)) =
     [ExecFileSync ''adb'' [''connect'', ''pixel:5555''] None] \<and>
   run (returned offline_host example_store ''/tmp/test.mp4'' (Some 0))
     [Stop Delivered, RecordExit ExitOk [] [], Timeout] =
     returned offline_host example_store ''/tmp/test.mp4'' (Some 0) \<and>
   truthy_number (waitTimeout (opts (returned offline_host example_store ''/tmp/test.mp4'' None))) \<and>
   \<not> truthy_string (hostname (opts (returned offline_host example_store ''/tmp/test.mp4'' None))) \<and>
   wait_result offline_host
     (opts (returned offline_host example_store ''/tmp/test.mp4'' None)) =
     Inl (example_error [''wait-for-device'']) \<and>
   promise (returned offline_host example_store ''/tmp/test.mp4'' None) =
     Rejected (example_error [''wait-for-device'']) \<and>
   calls (returned offline_host example_store ''/tmp/test.mp4'' None) =
     [ExecFileSync ''adb'' [''wait-for-device''] (Some 5000)] \<and>
   stop KillThrows (returned offline_host example_store ''/tmp/test.mp4'' None) =
     Inr (returned offline_host example_store ''/tmp/test.mp4'' None)"
  using preflight_failure_aborts [of offline_host example_store "''/tmp/test.mp4''" "Some 0"
      "example_error [''connect'', ''pixel:5555'']"]
    preflight_failure_aborts [of offline_host example_store "''/tmp/test.mp4''" None
      "example_error [''wait-for-device'']"]
  by (simp add: Let_def recordScreen_fields example_merged_0 example_merged_None defaults_def
      empty_options_def truthy_string_def truthy_number_def connect_result_def wait_result_def
      connect_call_def wait_call_def connect_args_def template_string_def template_number_def
      String_number_def digits10.simps offline_host_execFileSync)

text \<open>
  Claim C4.  Let the recording process of a reachable handle be active and let it end.
  If the callback receives an error whose \<^verbatim>\<open>killed\<close> flag is not set, the promise is
  rejected with this error, the calls stay those that \<^verbatim>\<open>recordScreen\<close> made, and no later
  event changes the handle: neither pull nor delete runs.  If it receives no error, or an
  error whose \<^verbatim>\<open>killed\<close> flag is set, the promise stays pending and the handle waits for
  the timer that was set with \<open>pullDelay\<close>; no event other than the timer changes the
  handle, and the pull call is made when the timer fires.  (How long the timer takes is
  the host's business; the model records the delay it was given.)
\<close>

theorem record_exit_outcome:
  "(let s0 = returned h st f options; s = run s0 es in
     recordingProcess s = Some child \<longrightarrow>
     (let error = exithandler child (''adb'' # args s) status;
          s' = step s (RecordExit status out err);
          result = \<lparr>stdout = join_empty [connectOutput s0, waitForDeviceOutput s0, Some out],
                    stderr = err\<rparr>
      in (\<forall>e. error = Some e \<and> \<not> killed e \<longrightarrow>
            promise s' = Rejected e \<and> calls s' = calls s0 \<and>
            pull_call s0 \<notin> set (calls s') \<and> delete_call s0 \<notin> set (calls s') \<and>
            (\<forall>es'. run s' es' = s')) \<and>
         (error = None \<or> (\<exists>e. error = Some e \<and> killed e) \<longrightarrow>
            promise s' = Pending \<and> waiting s' = Timer (pullDelay (opts s0)) result \<and>
            calls s' = calls s0 \<and> pull_call s0 \<notin> set (calls s') \<and>
            (\<forall>es'. Timeout \<notin> set es' \<longrightarrow> run s' es' = s') \<and>
            waiting (step s' Timeout) = PullProcess result \<and>
            calls (step s' Timeout) = calls s0 @ [pull_call s0])))"
proof -
  let ?init = "returned h st f options"
  let ?cur = "run ?init es"
  let ?error = "exithandler child (''adb'' # args ?cur) status"
  let ?result = "\<lparr>stdout = join_empty [connectOutput ?init, waitForDeviceOutput ?init, Some out],
                    stderr = err\<rparr>"
  define s' where "s' = step ?cur (RecordExit status out err)"
  {
    assume rp: "recordingProcess ?cur = Some child"
    note r = reachable_recording[OF rp] reachable_static[of h st f options es]
    have s': "s' = recordingCallback ?error out err ?cur"
      using rp by (simp add: s'_def step.simps)
    have rejected: "promise s' = Rejected e \<and> calls s' = calls ?init \<and>
            pull_call ?init \<notin> set (calls s') \<and> delete_call ?init \<notin> set (calls s') \<and>
            (\<forall>es'. run s' es' = s')" if e: "?error = Some e" "\<not> killed e" for e
    proof -
      have eq: "s' = ?cur\<lparr>recordingProcess := None, promise := Rejected e\<rparr>"
        unfolding s' using e by (simp add: recordingCallback_def Let_def)
      have "quiescent s'" unfolding eq using r by (simp add: quiescent_def)
      then show ?thesis using r later_calls_fresh[of h st f options]
        by (simp add: eq quiescent_run)
    qed
    have delayed: "promise s' = Pending \<and> waiting s' = Timer (pullDelay (opts ?init)) ?result \<and>
            calls s' = calls ?init \<and> pull_call ?init \<notin> set (calls s') \<and>
            (\<forall>es'. Timeout \<notin> set es' \<longrightarrow> run s' es' = s') \<and>
            waiting (step s' Timeout) = PullProcess ?result \<and>
            calls (step s' Timeout) = calls ?init @ [pull_call ?init]"
      if e: "?error = None \<or> (\<exists>e. ?error = Some e \<and> killed e)"
    proof -
      have eq: "s' = ?cur\<lparr>recordingProcess := None, waiting := Timer (pullDelay (opts ?init)) ?result\<rparr>"
        unfolding s' using e r by (auto simp: recordingCallback_def Let_def)
      have stay: "step s' ev = s'" if "ev \<noteq> Timeout" for ev
        using that unfolding eq by (cases ev) (simp_all add: step.simps stop_def)
      have "run s' es' = s'" if "Timeout \<notin> set es'" for es'
        using that by (induction es') (auto simp: run_Nil run_Cons stay)
      moreover have "pull_call s' = pull_call ?init"
        using r by (simp add: eq pull_call_def pullFile_args_def)
      moreover have "step s' Timeout = pullFile ?result s'"
        by (simp add: eq step.simps)
      ultimately show ?thesis using r later_calls_fresh[of h st f options]
        by (simp add: calls_pullFile) (simp add: eq pullFile_def)
    qed
    have "(\<forall>e. ?error = Some e \<and> \<not> killed e \<longrightarrow>
            promise s' = Rejected e \<and> calls s' = calls ?init \<and>
            pull_call ?init \<notin> set (calls s') \<and> delete_call ?init \<notin> set (calls s') \<and>
            (\<forall>es'. run s' es' = s')) \<and>
         (?error = None \<or> (\<exists>e. ?error = Some e \<and> killed e) \<longrightarrow>
            promise s' = Pending \<and> waiting s' = Timer (pullDelay (opts ?init)) ?result \<and>
            calls s' = calls ?init \<and> pull_call ?init \<notin> set (calls s') \<and>
            (\<forall>es'. Timeout \<notin> set es' \<longrightarrow> run s' es' = s') \<and>
            waiting (step s' Timeout) = PullProcess ?result \<and>
            calls (step s' Timeout) = calls ?init @ [pull_call ?init])"
    proof (rule conjI; intro allI impI)
      fix e assume a: "?error = Some e \<and> \<not> killed e"
      show "promise s' = Rejected e \<and> calls s' = calls ?init \<and>
            pull_call ?init \<notin> set (calls s') \<and> delete_call ?init \<notin> set (calls s') \<and>
            (\<forall>es'. run s' es' = s')"
        by (rule rejected) (use a in simp_all)
    next
      assume "?error = None \<or> (\<exists>e. ?error = Some e \<and> killed e)"
      then show "promise s' = Pending \<and> waiting s' = Timer (pullDelay (opts ?init)) ?result \<and>
            calls s' = calls ?init \<and> pull_call ?init \<notin> set (calls s') \<and>
            (\<forall>es'. Timeout \<notin> set es' \<longrightarrow> run s' es' = s') \<and>
            waiting (step s' Timeout) = PullProcess ?result \<and>
            calls (step s' Timeout) = calls ?init @ [pull_call ?init]"
        by (rule delayed)
    qed
  }
  then show ?thesis unfolding Let_def s'_def[symmetric] by (rule impI)
qed

theorem record_exit_outcome_witness:
  "recordingProcess (run example_handle []) =
     Some \<lparr>spawnargs = example_args, proc_killed = False\<rparr> \<and>
   exithandler \<lparr>spawnargs = example_args, proc_killed = False\<rparr>
     (''adb'' # args (run example_handle [])) (ExitFailure ''exit code 1'') =
     Some \<lparr>cmd = ''adb'' # example_args, killed = False, detail = ''exit code 1''\<rparr> \<and>
   \<not> killed \<lparr>cmd = ''adb'' # example_args, killed = False, detail = ''exit code 1''\<rparr> \<and>
   promise (step (run example_handle []) (RecordExit (ExitFailure ''exit code 1'') ''rec'' ''err'')) =
     Rejected \<lparr>cmd = ''adb'' # example_args, killed = False, detail = ''exit code 1''\<rparr> \<and>
   calls (run (step (run example_handle []) (RecordExit (ExitFailure ''exit code 1'') ''rec'' ''err''))
            [Timeout, PullExit (Inr \<lparr>stdout = [], stderr = []\<rparr>)]) =
     calls example_handle \<and>
   exithandler \<lparr>spawnargs = example_args, proc_killed = False\<rparr>
     (''adb'' # args (run example_handle [])) ExitOk = None \<and>
   waiting (step (run example_handle []) (RecordExit ExitOk ''rec'' ''err'')) =
     Timer (Some 200) \<lparr>stdout = ''<connectpixel:5555><wait-for-device>rec'', stderr = ''err''\<rparr> \<and>
   calls (step (step (run example_handle []) (RecordExit ExitOk ''rec'' ''err'')) Timeout) =
     calls example_handle @
     [ExecFile ''adb''
        [''-s'', ''banana'', ''pull'', ''-a'',
         ''/sdcard/Movies/abababababababababababababababab.mp4'', ''/tmp/test.mp4'']]"
  using record_exit_outcome [of example_host example_store "''/tmp/test.mp4''" "Some 0" "[]"
      "\<lparr>spawnargs = example_args, proc_killed = False\<rparr>" "ExitFailure ''exit code 1''"
      "''rec''" "''err''"]
    record_exit_outcome [of example_host example_store "''/tmp/test.mp4''" "Some 0" "[]"
      "\<lparr>spawnargs = example_args, proc_killed = False\<rparr>" ExitOk "''rec''" "''err''"]
  by (simp add: example_eval)

text \<open>
  Claim C7.  In a reachable handle that waits for the pull, a failure of the pull rejects
  the promise with that error; the calls are those of \<^verbatim>\<open>recordScreen\<close> and the pull, the
  delete call is not among them, and nothing changes any more.  In a reachable handle that
  waits for the delete (the pull has succeeded then), a failure of the delete rejects the
  promise with that error.  A promise that is rejected stays as it is under every later
  event: one error reaches the caller.
\<close>

theorem pull_delete_failure:
  "(let s0 = returned h st f options; s = run s0 es in
     (waiting s = PullProcess r \<longrightarrow>
        (let s' = step s (PullExit (Inl e))
         in promise s' = Rejected e \<and> calls s' = calls s0 @ [pull_call s0] \<and>
            delete_call s0 \<notin> set (calls s') \<and> (\<forall>es'. run s' es' = s'))) \<and>
     (waiting s = DeleteProcess r \<longrightarrow>
        (let s' = step s (DeleteExit (Inl e))
         in promise s' = Rejected e \<and> calls s' = calls s0 @ [pull_call s0, delete_call s0] \<and>
            (\<forall>es'. run s' es' = s'))) \<and>
     (promise s = Rejected e \<longrightarrow> (\<forall>es'. run s es' = s)))"
proof -
  let ?init = "returned h st f options"
  let ?cur = "run ?init es"
  have pull: "promise (step ?cur (PullExit (Inl e))) = Rejected e \<and>
      calls (step ?cur (PullExit (Inl e))) = calls ?init @ [pull_call ?init] \<and>
      delete_call ?init \<notin> set (calls (step ?cur (PullExit (Inl e)))) \<and>
      (\<forall>es'. run (step ?cur (PullExit (Inl e))) es' = step ?cur (PullExit (Inl e)))"
    if w: "waiting ?cur = PullProcess r"
  proof -
    have eq: "step ?cur (PullExit (Inl e)) = ?cur\<lparr>promise := Rejected e, waiting := Idle\<rparr>"
      using w by (simp add: step.simps)
    have "quiescent (?cur\<lparr>promise := Rejected e, waiting := Idle\<rparr>)"
      using reachable_pulling[OF w] by (simp add: quiescent_def)
    then show ?thesis
      using reachable_pulling[OF w] later_calls_fresh[of h st f options]
      by (simp add: eq quiescent_run)
  qed
  have del: "promise (step ?cur (DeleteExit (Inl e))) = Rejected e \<and>
      calls (step ?cur (DeleteExit (Inl e))) = calls ?init @ [pull_call ?init, delete_call ?init] \<and>
      (\<forall>es'. run (step ?cur (DeleteExit (Inl e))) es' = step ?cur (DeleteExit (Inl e)))"
    if w: "waiting ?cur = DeleteProcess r"
  proof -
    have eq: "step ?cur (DeleteExit (Inl e)) = ?cur\<lparr>promise := Rejected e, waiting := Idle\<rparr>"
      using w by (simp add: step.simps)
    have "quiescent (?cur\<lparr>promise := Rejected e, waiting := Idle\<rparr>)"
      using reachable_deleting[OF w] by (simp add: quiescent_def)
    then show ?thesis
      using reachable_deleting[OF w] by (simp add: eq quiescent_run)
  qed
  have once: "\<forall>es'. run ?cur es' = ?cur" if "promise ?cur = Rejected e"
    using reachable_settled[of h st f options es] that by (simp add: quiescent_run)
  show ?thesis
    unfolding Let_def using pull del once by blast
qed

theorem pull_delete_failure_witness:
  "waiting (run example_handle [RecordExit ExitOk ''rec'' [], Timeout]) =
     PullProcess \<lparr>stdout = ''<connectpixel:5555><wait-for-device>rec'', stderr = []\<rparr> \<and>
   promise (step (run example_handle [RecordExit ExitOk ''rec'' [], Timeout])
              (PullExit (Inl (example_error [''pull''])))) =
     Rejected (example_error [''pull'']) \<and>
   calls (run (step (run example_handle [RecordExit ExitOk ''rec'' [], Timeout])
                 (PullExit (Inl (example_error [''pull'']))))
            [DeleteExit (Inr \<lparr>stdout = [], stderr = []\<rparr>)]) =
     calls example_handle @ [pull_call example_handle] \<and>
   waiting (run example_handle
              [RecordExit ExitOk ''rec'' [], Timeout,
               PullExit (Inr \<lparr>stdout = ''1 file pulled'', stderr = []\<rparr>)]) =
     DeleteProcess
       \<lparr>stdout = ''<connectpixel:5555><wait-for-device>rec1 file pulled'', stderr = []\<rparr> \<and>
   promise (step (run example_handle
                    [RecordExit ExitOk ''rec'' [], Timeout,
                     PullExit (Inr \<lparr>stdout = ''1 file pulled'', stderr = []\<rparr>)])
              (DeleteExit (Inl (example_error [''shell''])))) =
     Rejected (example_error [''shell'']) \<and>
   promise (run example_handle
              [RecordExit ExitOk ''rec'' [], Timeout, PullExit (Inl (example_error [''pull'']))]) =
     Rejected (example_error [''pull'']) \<and>
   run (run example_handle
          [RecordExit ExitOk ''rec'' [], Timeout, PullExit (Inl (example_error [''pull'']))])
       [DeleteExit (Inl (example_error [''shell''])), Stop Delivered] =
     run example_handle
       [RecordExit ExitOk ''rec'' [], Timeout, PullExit (Inl (example_error [''pull'']))]"
  using pull_delete_failure [of example_host example_store "''/tmp/test.mp4''" "Some 0"
      "[RecordExit ExitOk ''rec'' [], Timeout]"
      "\<lparr>stdout = ''<connectpixel:5555><wait-for-device>rec'', stderr = []\<rparr>"
      "example_error [''pull'']"]
    pull_delete_failure [of example_host example_store "''/tmp/test.mp4''" "Some 0"
      "[RecordExit ExitOk ''rec'' [], Timeout, PullExit (Inr \<lparr>stdout = ''1 file pulled'', stderr = []\<rparr>)]"
      "\<lparr>stdout = ''<connectpixel:5555><wait-for-device>rec1 file pulled'', stderr = []\<rparr>"
      "example_error [''shell'']"]
    pull_delete_failure [of example_host example_store "''/tmp/test.mp4''" "Some 0"
      "[RecordExit ExitOk ''rec'' [], Timeout, PullExit (Inl (example_error [''pull'']))]"
      "\<lparr>stdout = [], stderr = []\<rparr>"
      "example_error [''pull'']"]
  by (simp add: example_eval)

text \<open>
  Claim C8.  With no recording process active, \<^verbatim>\<open>stop\<close> returns normally, whatever the
  host would do with a signal, leaves the handle as it is, and so does not change what
  follows.  No process is active in a handle returned after a failed preflight step, nor
  after the callback of the record process has run.  With a process active, \<^verbatim>\<open>stop\<close> is
  the host's \<^verbatim>\<open>kill('SIGINT')\<close> on that process; a delivered signal sets its \<^verbatim>\<open>killed\<close>
  flag.  A second \<^verbatim>\<open>stop\<close> with the same answer of the host leaves the handle as the
  first left it, and \<^verbatim>\<open>stop\<close> never touches the promise, the pending step or the calls.
  Any number of \<^verbatim>\<open>stop\<close> calls in a row leave the handle as a single delivered \<^verbatim>\<open>stop\<close>
  does if one of them is delivered, and unchanged otherwise.
\<close>

theorem stop_without_process:
  "(recordingProcess s = None \<longrightarrow> stop k s = Inr s \<and> run s (Stop k # es) = run s es) \<and>
   (promise (returned h st f options) \<noteq> Pending \<longrightarrow>
      recordingProcess (returned h st f options) = None) \<and>
   recordingProcess (step s (RecordExit status out err)) = None \<and>
   (recordingProcess s = Some p \<longrightarrow>
      stop k s =
        (case ChildProcess_kill p ''SIGINT'' k of
           Inl x \<Rightarrow> Inl x
         | Inr p' \<Rightarrow> Inr (s\<lparr>recordingProcess := Some p'\<rparr>)) \<and>
      stop Delivered s = Inr (s\<lparr>recordingProcess := Some (p\<lparr>proc_killed := True\<rparr>)\<rparr>)) \<and>
   (stop k s = Inr s' \<longrightarrow>
      stop k s' = Inr s' \<and> promise s' = promise s \<and> waiting s' = waiting s \<and>
      calls s' = calls s) \<and>
   run s (map Stop ks) = (if Delivered \<in> set ks then step s (Stop Delivered) else s)"
proof (intro conjI impI)
  show "run s (map Stop ks) = (if Delivered \<in> set ks then step s (Stop Delivered) else s)"
    by (rule run_stops)
next
  assume "recordingProcess s = None"
  then show "stop k s = Inr s" "run s (Stop k # es) = run s es"
    by (simp_all add: stop_def run_Cons step.simps)
next
  assume "promise (returned h st f options) \<noteq> Pending"
  then show "recordingProcess (returned h st f options) = None"
    using reachable_settled[of h st f options "[]"] by (simp add: run_Nil quiescent_def)
next
  show "recordingProcess (step s (RecordExit status out err)) = None"
    by (cases "recordingProcess s")
       (simp_all add: step.simps recordingCallback_def Let_def split: option.splits)
next
  assume "recordingProcess s = Some p"
  then show "stop k s =
        (case ChildProcess_kill p ''SIGINT'' k of
           Inl x \<Rightarrow> Inl x
         | Inr p' \<Rightarrow> Inr (s\<lparr>recordingProcess := Some p'\<rparr>))"
    "stop Delivered s = Inr (s\<lparr>recordingProcess := Some (p\<lparr>proc_killed := True\<rparr>)\<rparr>)"
    by (simp_all add: stop_def ChildProcess_kill_def)
next
  assume a: "stop k s = Inr s'"
  show "stop k s' = Inr s'"
  proof (cases "recordingProcess s")
    case None
    then show ?thesis using a by (simp add: stop_def)
  next
    case (Some p)
    then show ?thesis using a by (cases k) (auto simp: stop_def ChildProcess_kill_def)
  qed
  show "promise s' = promise s" "waiting s' = waiting s" "calls s' = calls s"
    using a by (auto simp: stop_def split: option.splits sum.splits)
qed

theorem stop_without_process_witness:
  "recordingProcess (run example_handle [RecordExit ExitOk ''rec'' []]) = None \<and>
   stop KillThrows (run example_handle [RecordExit ExitOk ''rec'' []]) =
     Inr (run example_handle [RecordExit ExitOk ''rec'' []]) \<and>
   run (run example_handle [RecordExit ExitOk ''rec'' []]) [Stop Delivered, Timeout] =
     run (run example_handle [RecordExit ExitOk ''rec'' []]) [Timeout] \<and>
   promise (returned offline_host example_store ''/tmp/test.mp4'' (Some 0)) \<noteq> Pending \<and>
   recordingProcess (returned offline_host example_store ''/tmp/test.mp4'' (Some 0)) = None \<and>
   recordingProcess example_handle = Some \<lparr>spawnargs = example_args, proc_killed = False\<rparr> \<and>
   stop Delivered example_handle =
     Inr (example_handle\<lparr>recordingProcess := Some \<lparr>spawnargs = example_args, proc_killed = True\<rparr>\<rparr>) \<and>
   stop Delivered
     (example_handle\<lparr>recordingProcess := Some \<lparr>spawnargs = example_args, proc_killed = True\<rparr>\<rparr>) =
     Inr (example_handle\<lparr>recordingProcess := Some \<lparr>spawnargs = example_args, proc_killed = True\<rparr>\<rparr>)"
  using stop_without_process [of "run example_handle [RecordExit ExitOk ''rec'' []]" KillThrows
      "[Timeout]" offline_host example_store "''/tmp/test.mp4''" "Some 0" _ _ _ _ _ "[]"]
    stop_without_process [of example_handle Delivered "[]" offline_host example_store
      "''/tmp/test.mp4''" "Some 0" ExitOk "[]" "[]"
      "\<lparr>spawnargs = example_args, proc_killed = False\<rparr>"
      "example_handle\<lparr>recordingProcess := Some \<lparr>spawnargs = example_args, proc_killed = True\<rparr>\<rparr>"]
    offline_handle_promise
  by (simp add: example_eval)

text \<open>
  Claim C9.  Let \<^verbatim>\<open>stop\<close> deliver the signal to the active process of a reachable
  handle, and let any number of further \<^verbatim>\<open>stop\<close> calls follow.  If the process then
  exits with a failure (any exit code or signal), the handle is the same as if it had
  exited cleanly: the promise stays pending, the timer is set, and when it fires the pull
  call is made.
\<close>

theorem stop_suppresses_exit_error:
  "(let s0 = returned h st f options; s = run s0 es in
     recordingProcess s = Some p \<longrightarrow>
     (let s1 = step s (Stop Delivered);
          s2 = run s1 (map Stop ks);
          s3 = step s2 (RecordExit (ExitFailure d) out err);
          result = \<lparr>stdout = join_empty [connectOutput s0, waitForDeviceOutput s0, Some out],
                    stderr = err\<rparr>
      in s3 = step s2 (RecordExit ExitOk out err) \<and>
         promise s3 = Pending \<and> waiting s3 = Timer (pullDelay (opts s0)) result \<and>
         waiting (step s3 Timeout) = PullProcess result \<and>
         calls (step s3 Timeout) = calls s0 @ [pull_call s0]))"
proof -
  let ?init = "returned h st f options"
  let ?cur = "run ?init es"
  let ?result = "\<lparr>stdout = join_empty [connectOutput ?init, waitForDeviceOutput ?init, Some out],
                    stderr = err\<rparr>"
  {
    assume rp: "recordingProcess ?cur = Some p"
    note r = reachable_recording[OF rp] reachable_static[of h st f options es]
    define s1 where "s1 = step ?cur (Stop Delivered)"
    have s1: "s1 = ?cur\<lparr>recordingProcess := Some (p\<lparr>proc_killed := True\<rparr>)\<rparr>"
      using rp by (simp add: s1_def step.simps stop_def ChildProcess_kill_def)
    have s2: "run s1 (map Stop ks) = s1"
      by (rule stops_after_delivery[of _ "p\<lparr>proc_killed := True\<rparr>"]) (simp_all add: s1)
    define s3 where "s3 = step s1 (RecordExit (ExitFailure d) out err)"
    have s3: "s3 = ?cur\<lparr>recordingProcess := None,
                     waiting := Timer (pullDelay (opts ?init)) ?result\<rparr>"
      using r by (simp add: s3_def s1 step.simps exithandler_def recordingCallback_def Let_def)
    have ok: "step s1 (RecordExit ExitOk out err) = s3"
      using r by (simp add: s3 s1 step.simps exithandler_def recordingCallback_def Let_def)
    have "pull_call s3 = pull_call ?init"
      using r by (simp add: s3 pull_call_def pullFile_args_def)
    moreover have "step s3 Timeout = pullFile ?result s3"
      by (simp add: s3 step.simps)
    ultimately have "s3 = step s1 (RecordExit ExitOk out err) \<and>
         promise s3 = Pending \<and> waiting s3 = Timer (pullDelay (opts ?init)) ?result \<and>
         waiting (step s3 Timeout) = PullProcess ?result \<and>
         calls (step s3 Timeout) = calls ?init @ [pull_call ?init]"
      using r ok by (simp add: s3 calls_pullFile) (simp add: pullFile_def)
    then have "step (run s1 (map Stop ks)) (RecordExit (ExitFailure d) out err) =
          step (run s1 (map Stop ks)) (RecordExit ExitOk out err) \<and>
         promise (step (run s1 (map Stop ks)) (RecordExit (ExitFailure d) out err)) = Pending \<and>
         waiting (step (run s1 (map Stop ks)) (RecordExit (ExitFailure d) out err)) =
           Timer (pullDelay (opts ?init)) ?result \<and>
         waiting (step (step (run s1 (map Stop ks)) (RecordExit (ExitFailure d) out err)) Timeout) =
           PullProcess ?result \<and>
         calls (step (step (run s1 (map Stop ks)) (RecordExit (ExitFailure d) out err)) Timeout) =
           calls ?init @ [pull_call ?init]"
      unfolding s2 s3_def[symmetric] .
  }
  then show ?thesis unfolding Let_def by (rule impI)
qed

theorem stop_suppresses_exit_error_witness:
  "recordingProcess (run example_handle []) =
     Some \<lparr>spawnargs = example_args, proc_killed = False\<rparr> \<and>
   step (run (step (run example_handle []) (Stop Delivered)) (map Stop [NotDelivered, KillThrows]))
     (RecordExit (ExitFailure ''SIGSEGV'') ''rec'' ''err'') =
   step (run (step (run example_handle []) (Stop Delivered)) (map Stop [NotDelivered, KillThrows]))
     (RecordExit ExitOk ''rec'' ''err'') \<and>
   promise (run example_handle
              [Stop Delivered, Stop NotDelivered, Stop KillThrows,
               RecordExit (ExitFailure ''SIGSEGV'') ''rec'' ''err'']) = Pending \<and>
   calls (run example_handle
            [Stop Delivered, Stop NotDelivered, Stop KillThrows,
             RecordExit (ExitFailure ''SIGSEGV'') ''rec'' ''err'', Timeout]) =
     calls example_handle @ [pull_call example_handle]"
  using stop_suppresses_exit_error [of example_host example_store "''/tmp/test.mp4''" "Some 0"
      "[]" "\<lparr>spawnargs = example_args, proc_killed = False\<rparr>"
      "[NotDelivered, KillThrows]" "''SIGSEGV''" "''rec''" "''err''"]
  by (simp add: example_eval)

text \<open>
  Claim C6.  Let the preflight steps pass, and let the record process exit cleanly, the
  timer fire, the pull succeed and the delete succeed, with any calls of \<^verbatim>\<open>stop\<close> in
  between.  Then the promise is fulfilled with the standard output that is, in this
  order, the output of the connect call (if \<open>hostname\<close> is set, nothing otherwise), the
  output of the wait call (if \<open>waitTimeout\<close> is not zero, nothing otherwise), the output
  of the record process, the lines of the pull output that are no progress lines, and
  the output of the delete; the standard error is that of record, pull and delete.  What
  the pull contributes has no progress line.  With \<open>waitTimeout = 0\<close> the wait
  contributes nothing and no wait call is ever made.
\<close>

theorem full_success_result:
  "(let s0 = returned h st f options;
        c = opts s0;
        co = (if truthy_string (hostname c)
              then (case connect_result h c of Inr b \<Rightarrow> b | Inl e \<Rightarrow> []) else []);
        wo = (if truthy_number (waitTimeout c)
              then (case wait_result h c of Inr b \<Rightarrow> b | Inl e \<Rightarrow> []) else []);
        es = map Stop ks1 @ [RecordExit ExitOk ro re] @ map Stop ks2 @ [Timeout] @
             map Stop ks3 @ [PullExit (Inr p)] @ map Stop ks4 @ [DeleteExit (Inr d)]
    in promise s0 = Pending \<longrightarrow>
         promise (run s0 es) =
           Fulfilled
             \<lparr>stdout = co @ wo @ ro @
                 concat (filter (\<lambda>l. \<not> progress_line l) (lines_nl (stdout p))) @ stdout d,
              stderr = re @ stderr p @ stderr d\<rparr> \<and>
         (\<forall>l \<in> set (lines_nl (replace_progress (stdout p))). \<not> progress_line l) \<and>
         (waitTimeout c = Some 0 \<longrightarrow>
            wo = [] \<and> (\<forall>t. ExecFileSync ''adb'' [''wait-for-device''] t \<notin> set (calls (run s0 es)))))"
proof -
  let ?init = "returned h st f options"
  let ?c = "opts ?init"
  let ?co = "if truthy_string (hostname ?c)
              then (case connect_result h ?c of Inr b \<Rightarrow> b | Inl e \<Rightarrow> []) else []"
  let ?wo = "if truthy_number (waitTimeout ?c)
              then (case wait_result h ?c of Inr b \<Rightarrow> b | Inl e \<Rightarrow> []) else []"
  let ?es = "map Stop ks1 @ [RecordExit ExitOk ro re] @ map Stop ks2 @ [Timeout] @
             map Stop ks3 @ [PullExit (Inr p)] @ map Stop ks4 @ [DeleteExit (Inr d)]"
  define R where "R = \<lparr>stdout = ?co @ ?wo @ ro, stderr = re\<rparr>"
  have lines: "\<forall>l \<in> set (lines_nl (replace_progress (stdout p))). \<not> progress_line l"
    by (simp add: lines_nl_replace_progress)
  have nowait: "?wo = [] \<and>
      (\<forall>t. ExecFileSync ''adb'' [''wait-for-device''] t \<notin> set (calls (run ?init ?es)))"
    if "waitTimeout ?c = Some 0"
    using that wait_call_absent[of h st f options _ ?es] by (simp add: truthy_number_def)
  have result: "promise (run ?init ?es) =
           Fulfilled
             \<lparr>stdout = ?co @ ?wo @ ro @
                 concat (filter (\<lambda>l. \<not> progress_line l) (lines_nl (stdout p))) @ stdout d,
              stderr = re @ stderr p @ stderr d\<rparr>"
    if pend: "promise ?init = Pending"
  proof (cases h st f options rule: handle_cases)
    case (connect_failed e)
    then show ?thesis using pend by simp
  next
    case (wait_failed e cc)
    then show ?thesis using pend by simp
  next
    case (started co cc wo wc)
    have join: "join_empty [connectOutput ?init, waitForDeviceOutput ?init, Some ro] = ?co @ ?wo @ ro"
      using started(1,2,7,8) by (auto simp: join_empty_def)
    obtain p0 where rp: "recordingProcess ?init = Some p0"
      using started(5) by simp
    from run_stops_recording[OF rp, of ks1]
    obtain p1 where s1: "run ?init (map Stop ks1) = ?init\<lparr>recordingProcess := Some p1\<rparr>"
      by blast
    define s2 where "s2 = ?init\<lparr>recordingProcess := None, waiting := Timer (pullDelay ?c) R\<rparr>"
    have e2: "step (?init\<lparr>recordingProcess := Some p1\<rparr>) (RecordExit ExitOk ro re) = s2"
      by (simp add: step.simps exithandler_def recordingCallback_def Let_def s2_def R_def join)
    have i2: "run s2 (map Stop ks2) = s2"
      by (rule run_stops_idle) (simp add: s2_def)
    define s4 where "s4 = pullFile R s2"
    have e4: "step s2 Timeout = s4"
      by (simp add: step.simps s2_def s4_def)
    have i4: "run s4 (map Stop ks3) = s4"
      by (rule run_stops_idle) (simp add: s4_def s2_def pullFile_def)
    define s6 where "s6 = deleteFile (pullFile_then R p) s4"
    have e6: "step s4 (PullExit (Inr p)) = s6"
      by (simp add: step.simps s4_def s6_def pullFile_def)
    have i6: "run s6 (map Stop ks4) = s6"
      by (rule run_stops_idle) (simp add: s6_def s4_def s2_def pullFile_def deleteFile_def)
    have e8: "promise (step s6 (DeleteExit (Inr d))) =
        Fulfilled (deleteFile_then (pullFile_then R p) d)"
      by (simp add: step.simps s6_def deleteFile_def)
    have "run ?init ?es = step s6 (DeleteExit (Inr d))"
      by (simp add: run_append run_Cons run_Nil s1 e2 i2 e4 i4 e6 i6)
    then show ?thesis
      by (simp add: e8 deleteFile_then_def pullFile_then_def R_def replace_progress_lines)
  qed
  show ?thesis
    unfolding Let_def using lines nowait result by blast
qed

theorem full_success_result_witness:
  "promise example_handle = Pending \<and>
   promise (run example_handle
      (map Stop [Delivered] @ [RecordExit ExitOk ''rec'' ''e1''] @ map Stop [] @ [Timeout] @
       map Stop [NotDelivered] @
       [PullExit (Inr \<lparr>stdout = ''[ 50%] x'' @ [CHR 0x0A] @ ''[100%] x'' @ [CHR 0x0A] @
                             ''x: 1 file pulled'' @ [CHR 0x0A],
                         stderr = ''e2''\<rparr>)] @
       map Stop [] @ [DeleteExit (Inr \<lparr>stdout = ''deleted'', stderr = ''e3''\<rparr>)])) =
     Fulfilled
       \<lparr>stdout = ''<connectpixel:5555><wait-for-device>rec'' @ ''x: 1 file pulled'' @ [CHR 0x0A] @
                 ''deleted'',
        stderr = ''e1e2e3''\<rparr> \<and>
   waitTimeout (opts (returned example_host example_store ''/tmp/test.mp4'' (Some 2))) =
     Some 0 \<and>
   promise (returned example_host example_store ''/tmp/test.mp4'' (Some 2)) = Pending \<and>
   promise (run (returned example_host example_store ''/tmp/test.mp4'' (Some 2))
      (map Stop [] @ [RecordExit ExitOk ''rec'' []] @ map Stop [] @ [Timeout] @ map Stop [] @
       [PullExit (Inr \<lparr>stdout = ''pulled'', stderr = []\<rparr>)] @ map Stop [] @
       [DeleteExit (Inr \<lparr>stdout = ''deleted'', stderr = []\<rparr>)])) =
     Fulfilled \<lparr>stdout = ''rec'' @ ''pulled'' @ ''deleted'', stderr = []\<rparr>"
  using full_success_result [of example_host example_store "''/tmp/test.mp4''" "Some 0"
      "[Delivered]" "''rec''" "''e1''" "[]" "[NotDelivered]"
      "\<lparr>stdout = ''[ 50%] x'' @ [CHR 0x0A] @ ''[100%] x'' @ [CHR 0x0A] @
                             ''x: 1 file pulled'' @ [CHR 0x0A],
                         stderr = ''e2''\<rparr>" "[]" "\<lparr>stdout = ''deleted'', stderr = ''e3''\<rparr>"]
    full_success_result [of example_host example_store "''/tmp/test.mp4''" "Some 2"
      "[]" "''rec''" "[]" "[]" "[]" "\<lparr>stdout = ''pulled'', stderr = []\<rparr>" "[]"
      "\<lparr>stdout = ''deleted'', stderr = []\<rparr>"]
  by (simp add: Let_def example_handle_def example_handle_value example_handle_2 empty_options_def
      truthy_string_def truthy_number_def connect_result_def wait_result_def connect_args_def
      template_string_def template_number_def String_number_def digits10.simps
      example_host_execFileSync progress_line_def dot_def)

subsection \<open>The caller's options object\<close>

text \<open>
  Claim C10.  \<^verbatim>\<open>recordScreen\<close> writes the defaults and the caller's properties into a
  new object: every object that existed before the call, the caller's options object
  among them, is the same after it.  The events after the call have no access to the
  store at all.  A call with a reference to an empty object returns the same store and
  the same handle as a call without the argument.
\<close>

theorem options_object_untouched:
  "(\<forall>r < next_ref st. objs (fst (recordScreen h st f options)) r = objs st r) \<and>
   (\<forall>r < next_ref st. objs st r = empty_options \<longrightarrow>
      recordScreen h st f (Some r) = recordScreen h st f None)"
proof (intro conjI allI impI)
  fix r assume "r < next_ref st"
  then show "objs (fst (recordScreen h st f options)) r = objs st r"
    by (cases options) (simp_all add: fst_recordScreen new_object_def Object_assign_def)
next
  fix r assume r: "r < next_ref st" and e: "objs st r = empty_options"
  have "merged_options st (Some r) = merged_options st None"
    using r e
    by (simp add: merged_options_def new_object_def Object_assign_def assign_defaults_empty)
  then have "returned h st f (Some r) = returned h st f None"
    by (simp add: recordScreen_handle)
  moreover have "fst (recordScreen h st f (Some r)) = fst (recordScreen h st f None)"
    using r e by (simp add: fst_recordScreen new_object_def Object_assign_def assign_defaults_empty)
  ultimately show "recordScreen h st f (Some r) = recordScreen h st f None"
    by (simp add: prod_eq_iff)
qed

theorem options_object_untouched_witness:
  "(0::nat) < next_ref example_store \<and> (1::nat) < next_ref example_store \<and>
   objs example_store 1 = empty_options \<and>
   objs (fst (recordScreen example_host example_store ''/tmp/test.mp4'' (Some 0))) 0 =
     empty_options\<lparr>serial := Some ''banana'', hostname := Some ''pixel''\<rparr> \<and>
   recordScreen example_host example_store ''/tmp/test.mp4'' (Some 1) =
     recordScreen example_host example_store ''/tmp/test.mp4'' None"
  using options_object_untouched [of example_store example_host "''/tmp/test.mp4''" "Some 0"]
  by (simp add: example_store_def)

end
